theory Spec2Isabelle
  imports Main
begin

section \<open>JavaScript values\<close>

text \<open>
  The values that flow through \<^verbatim>\<open>auth.js\<close> and \<^verbatim>\<open>scripts.js\<close>: what \<^verbatim>\<open>JSON.parse\<close> and
  \<^verbatim>\<open>response.json()\<close> return, and \<^verbatim>\<open>undefined\<close> for a property that is not there.
  An object is the list of its own properties (keys distinct, as after \<^verbatim>\<open>JSON.parse\<close>).
  Numbers are modelled as exact integers: an \<^verbatim>\<open>exp\<close> claim counts whole seconds and
  \<^verbatim>\<open>Date.now()\<close> whole milliseconds, both far below \<open>2^53\<close>, where doubles are exact.
  Strings are lists of 8-bit characters, \<^verbatim>\<open>length\<close> counts them.
\<close>

datatype jsval =
    JUndefined
  | JNull
  | JBool bool
  | JNum int
  | JStr string
  | JArr "jsval list"
  | JObj "(string \<times> jsval) list"

text \<open>The result of an arithmetic conversion: a finite number, \<^verbatim>\<open>NaN\<close> or an infinity.\<close>

datatype jsnum = NaN | Fin int | PosInf | NegInf

text \<open>
  \<^verbatim>\<open>v.k\<close> for the property names this program reads (\<^verbatim>\<open>exp\<close>, \<^verbatim>\<open>error\<close>,
  \<^verbatim>\<open>access_token\<close>, \<^verbatim>\<open>role\<close>, ...): a \<^verbatim>\<open>TypeError\<close> (\<open>None\<close>) on \<^verbatim>\<open>null\<close> and
  \<^verbatim>\<open>undefined\<close>, the own property of an object, and \<^verbatim>\<open>undefined\<close> otherwise (none of
  these names is defined on a number, boolean, string or array).
\<close>

fun get_prop :: "jsval \<Rightarrow> string \<Rightarrow> jsval option" where
  "get_prop JUndefined k = None"
| "get_prop JNull k = None"
| "get_prop (JObj kvs) k = (case map_of kvs k of None \<Rightarrow> Some JUndefined | Some v \<Rightarrow> Some v)"
| "get_prop v k = Some JUndefined"

text \<open>Truthiness, as \<^verbatim>\<open>!v\<close>, \<^verbatim>\<open>v || d\<close> and \<^verbatim>\<open>v ? a : b\<close> test it.\<close>

fun truthy :: "jsval \<Rightarrow> bool" where
  "truthy JUndefined = False"
| "truthy JNull = False"
| "truthy (JBool b) = b"
| "truthy (JNum n) = (n \<noteq> 0)"
| "truthy (JStr s) = (s \<noteq> [])"
| "truthy (JArr xs) = True"
| "truthy (JObj kvs) = True"

text \<open>
  \<^verbatim>\<open>localStorage.getItem\<close> returns a string or \<^verbatim>\<open>null\<close>; \<^verbatim>\<open>if (!token)\<close> and
  \<^verbatim>\<open>getRefreshToken()\<close> in a condition hold for a string that is there and not empty.
\<close>

fun present :: "string option \<Rightarrow> bool" where
  "present None = False"
| "present (Some s) = (s \<noteq> [])"

section \<open>The platform\<close>

text \<open>Fetch options: the \<^verbatim>\<open>headers\<close> object (a plain object, or absent) and every other field.\<close>

record options =
  headers :: "(string \<rightharpoonup> string) option"
  other :: "string \<rightharpoonup> jsval"

record request =
  url :: string
  opts :: options

text \<open>
  A response: its status and what \<^verbatim>\<open>response.json()\<close> gives (\<open>None\<close> when the body is
  not JSON and the call rejects). A fetch either resolves to a response or rejects.
\<close>

record response =
  status :: nat
  body :: "jsval option"

datatype fetch_result = NetworkError | Response response

text \<open>
  What the browser and the server contribute, taken as parameters: the built-ins
  \<^verbatim>\<open>atob\<close> and \<^verbatim>\<open>JSON.parse\<close> (\<open>None\<close> when they throw), \<^verbatim>\<open>JSON.stringify\<close>, the
  conversions of a string, array or object to a number and of a number, array or object to
  a string (\<open>None\<close> when an object cannot be converted and the conversion throws a
  \<^verbatim>\<open>TypeError\<close>), the clock, whether \<^verbatim>\<open>localStorage.setItem\<close> accepts a write (it throws
  \<^verbatim>\<open>QuotaExceededError\<close> otherwise), and the server's answer to a request given the
  requests issued before it.
\<close>

record platform =
  atob :: "string \<Rightarrow> string option"
  JSON_parse :: "string \<Rightarrow> jsval option"
  JSON_stringify :: "jsval \<Rightarrow> string"
  ToNumber_other :: "jsval \<Rightarrow> jsnum option"
  ToString_other :: "jsval \<Rightarrow> string option"
  Date_now :: int
  quota_ok :: "(string \<rightharpoonup> string) \<Rightarrow> string \<Rightarrow> string \<Rightarrow> bool"
  server :: "request list \<Rightarrow> request \<Rightarrow> fetch_result"

text \<open>
  A continuation left behind by an \<^verbatim>\<open>async\<close> function that was called without
  \<^verbatim>\<open>await\<close>: the rest of \<^verbatim>\<open>logout\<close> after its fetch, or the rest of
  \<^verbatim>\<open>refreshAccessToken\<close> after its fetch, with the outcome of that fetch.
\<close>

datatype task = LogoutCont | RefreshCont fetch_result

text \<open>
  The state the code acts on: \<^verbatim>\<open>localStorage\<close>, the requests issued so far (oldest
  first) and the continuations still waiting.
\<close>

record world =
  store :: "string \<rightharpoonup> string"
  requests :: "request list"
  pending :: "task list"

definition API_BASE_URL :: string where
  "API_BASE_URL = ''http://localhost:5000/api''"

definition ok :: "response \<Rightarrow> bool" where
  "ok r = (200 \<le> status r \<and> status r \<le> 299)"

definition fetch :: "platform \<Rightarrow> world \<Rightarrow> request \<Rightarrow> fetch_result \<times> world" where
  "fetch env w req = (server env (requests w) req, w\<lparr>requests := requests w @ [req]\<rparr>)"

definition setItem :: "platform \<Rightarrow> (string \<rightharpoonup> string) \<Rightarrow> string \<Rightarrow> string \<Rightarrow> (string \<rightharpoonup> string) option" where
  "setItem env st k v = (if quota_ok env st k v then Some (st(k \<mapsto> v)) else None)"

definition removeItem :: "(string \<rightharpoonup> string) \<Rightarrow> string \<Rightarrow> (string \<rightharpoonup> string)" where
  "removeItem st k = st(k := None)"

text \<open>The string \<^verbatim>\<open>setItem\<close> stores for a value, and that a template literal prints.\<close>

fun to_string :: "platform \<Rightarrow> jsval \<Rightarrow> string option" where
  "to_string env (JStr s) = Some s"
| "to_string env JUndefined = Some ''undefined''"
| "to_string env JNull = Some ''null''"
| "to_string env (JBool b) = Some (if b then ''true'' else ''false'')"
| "to_string env v = ToString_other env v"

text \<open>The number \<^verbatim>\<open>v * 1000\<close> converts \<open>v\<close> to.\<close>

fun to_number :: "platform \<Rightarrow> jsval \<Rightarrow> jsnum option" where
  "to_number env JUndefined = Some NaN"
| "to_number env JNull = Some (Fin 0)"
| "to_number env (JBool b) = Some (Fin (if b then 1 else 0))"
| "to_number env (JNum n) = Some (Fin n)"
| "to_number env v = ToNumber_other env v"

fun js_times :: "jsnum \<Rightarrow> int \<Rightarrow> jsnum" where
  "js_times (Fin n) k = Fin (n * k)"
| "js_times x k = x"

text \<open>\<^verbatim>\<open>n >= x\<close> for a finite \<open>n\<close>: false against \<^verbatim>\<open>NaN\<close>.\<close>

fun js_ge :: "int \<Rightarrow> jsnum \<Rightarrow> bool" where
  "js_ge n (Fin e) = (n \<ge> e)"
| "js_ge n NaN = False"
| "js_ge n PosInf = False"
| "js_ge n NegInf = True"

text \<open>\<^verbatim>\<open>s.split(c)\<close> for a one-character separator: never empty, \<^verbatim>\<open>"".split(c)\<close> is \<^verbatim>\<open>[""]\<close>.\<close>

fun split_on :: "char \<Rightarrow> string \<Rightarrow> string list" where
  "split_on c [] = [[]]"
| "split_on c (x # xs) =
     (if x = c then [] # split_on c xs
      else (case split_on c xs of [] \<Rightarrow> [[x]] | s # ss \<Rightarrow> (x # s) # ss))"

section \<open>auth.js\<close>

definition getAccessToken :: "world \<Rightarrow> string option" where
  "getAccessToken w = store w ''access_token''"

definition getRefreshToken :: "world \<Rightarrow> string option" where
  "getRefreshToken w = store w ''refresh_token''"

definition bearer :: "string \<Rightarrow> options" where
  "bearer token =
     \<lparr>headers = Some [''Authorization'' \<mapsto> ''Bearer '' @ token],
      other = [''method'' \<mapsto> JStr ''POST'']\<rparr>"

subsection \<open>logout\<close>

text \<open>
  \<^verbatim>\<open>logout\<close> reads the access token, posts to \<^verbatim>\<open>/auth/logout\<close> when there is one
  (whatever becomes of that request is ignored), and then removes the three keys.
  \<open>logout_finish\<close> is the part after the \<^verbatim>\<open>await\<close>; \<open>logout\<close> is the call that is
  awaited, \<open>logout_unawaited\<close> the call that is not (in \<^verbatim>\<open>isAuthenticated\<close> and
  \<^verbatim>\<open>refreshAccessToken\<close>): it runs up to the \<^verbatim>\<open>await\<close> and leaves the rest pending,
  or runs to its end when there is no token and so no \<^verbatim>\<open>await\<close>.
\<close>

definition logout_request :: "string \<Rightarrow> request" where
  "logout_request token = \<lparr>url = API_BASE_URL @ ''/auth/logout'', opts = bearer token\<rparr>"

definition logout_finish :: "world \<Rightarrow> world" where
  "logout_finish w =
     w\<lparr>store := removeItem (removeItem (removeItem (store w) ''access_token'') ''refresh_token'') ''user''\<rparr>"

definition logout :: "platform \<Rightarrow> world \<Rightarrow> bool \<times> world" where
  "logout env w =
     (case getAccessToken w of
        None \<Rightarrow> (True, logout_finish w)
      | Some token \<Rightarrow>
          if token = [] then (True, logout_finish w)
          else (True, logout_finish (snd (fetch env w (logout_request token)))))"

definition logout_unawaited :: "platform \<Rightarrow> world \<Rightarrow> world" where
  "logout_unawaited env w =
     (case getAccessToken w of
        None \<Rightarrow> logout_finish w
      | Some token \<Rightarrow>
          if token = [] then logout_finish w
          else (let w1 = snd (fetch env w (logout_request token))
                in w1\<lparr>pending := pending w1 @ [LogoutCont]\<rparr>))"

subsection \<open>refreshAccessToken\<close>

definition refresh_request :: "string \<Rightarrow> request" where
  "refresh_request token = \<lparr>url = API_BASE_URL @ ''/auth/refresh'', opts = bearer token\<rparr>"

text \<open>
  The part of \<^verbatim>\<open>refreshAccessToken\<close> after its fetch has settled with \<open>r\<close>. Every way
  out but the last calls \<^verbatim>\<open>logout()\<close> without awaiting it and returns \<^verbatim>\<open>false\<close>: a
  rejected fetch, a response that is not ok, a body that is not JSON, a \<^verbatim>\<open>null\<close> body,
  a token that cannot be made a string and a refused write all end in the \<^verbatim>\<open>catch\<close> block or the \<^verbatim>\<open>!response.ok\<close> branch.
\<close>

definition refresh_continue :: "platform \<Rightarrow> fetch_result \<Rightarrow> world \<Rightarrow> bool \<times> world" where
  "refresh_continue env r w =
     (case r of
        NetworkError \<Rightarrow> (False, logout_unawaited env w)
      | Response resp \<Rightarrow>
          if \<not> ok resp then (False, logout_unawaited env w)
          else (case body resp of
                  None \<Rightarrow> (False, logout_unawaited env w)
                | Some data \<Rightarrow>
                    (case get_prop data ''access_token'' of
                       None \<Rightarrow> (False, logout_unawaited env w)
                     | Some tok \<Rightarrow>
                         (case to_string env tok of
                            None \<Rightarrow> (False, logout_unawaited env w)
                          | Some s \<Rightarrow>
                              (case setItem env (store w) ''access_token'' s of
                                 None \<Rightarrow> (False, logout_unawaited env w)
                               | Some st \<Rightarrow> (True, w\<lparr>store := st\<rparr>))))))"

definition refreshAccessToken :: "platform \<Rightarrow> world \<Rightarrow> bool \<times> world" where
  "refreshAccessToken env w =
     (case getRefreshToken w of
        None \<Rightarrow> (False, w)
      | Some token \<Rightarrow>
          if token = [] then (False, w)
          else (let (r, w1) = fetch env w (refresh_request token)
                in refresh_continue env r w1))"

text \<open>The same call without \<^verbatim>\<open>await\<close>: up to the fetch, the rest pending.\<close>

definition refreshAccessToken_unawaited :: "platform \<Rightarrow> world \<Rightarrow> world" where
  "refreshAccessToken_unawaited env w =
     (case getRefreshToken w of
        None \<Rightarrow> w
      | Some token \<Rightarrow>
          if token = [] then w
          else (let (r, w1) = fetch env w (refresh_request token)
                in w1\<lparr>pending := pending w1 @ [RefreshCont r]\<rparr>))"

text \<open>A pending continuation runs when its fetch has settled.\<close>

fun run_task :: "platform \<Rightarrow> task \<Rightarrow> world \<Rightarrow> world" where
  "run_task env LogoutCont w = logout_finish w"
| "run_task env (RefreshCont r) w = snd (refresh_continue env r w)"

subsection \<open>isAuthenticated\<close>

text \<open>
  \<^verbatim>\<open>token.split('.')[1]\<close> as \<^verbatim>\<open>atob\<close> receives it: a missing second segment is
  \<^verbatim>\<open>undefined\<close>, which \<^verbatim>\<open>atob\<close> reads as the string \<^verbatim>\<open>"undefined"\<close>.
\<close>

definition payload_segment :: "string \<Rightarrow> string" where
  "payload_segment token =
     (let segs = split_on (CHR ''.'') token
      in if 1 < length segs then segs ! 1 else ''undefined'')"

text \<open>
  \<^verbatim>\<open>JSON.parse(atob(token.split('.')[1])).exp * 1000\<close>: \<open>None\<close> when one of the steps
  throws (\<^verbatim>\<open>atob\<close>, \<^verbatim>\<open>JSON.parse\<close>, reading \<^verbatim>\<open>exp\<close> of \<^verbatim>\<open>null\<close>, or the
  conversion of \<^verbatim>\<open>exp\<close> to a number).
\<close>

definition payload_exp :: "platform \<Rightarrow> string \<Rightarrow> jsval option" where
  "payload_exp env token =
     (case atob env (payload_segment token) of
        None \<Rightarrow> None
      | Some s \<Rightarrow>
          (case JSON_parse env s of
             None \<Rightarrow> None
           | Some payload \<Rightarrow> get_prop payload ''exp''))"

definition expiry_time :: "platform \<Rightarrow> string \<Rightarrow> jsnum option" where
  "expiry_time env token =
     (case payload_exp env token of
        None \<Rightarrow> None
      | Some e \<Rightarrow>
          (case to_number env e of
             None \<Rightarrow> None
           | Some n \<Rightarrow> Some (js_times n 1000)))"

definition isAuthenticated :: "platform \<Rightarrow> world \<Rightarrow> bool \<times> world" where
  "isAuthenticated env w =
     (case getAccessToken w of
        None \<Rightarrow> (False, w)
      | Some token \<Rightarrow>
          if token = [] then (False, w)
          else (case expiry_time env token of
                  None \<Rightarrow> (False, logout_unawaited env w)
                | Some expiryTime \<Rightarrow>
                    if js_ge (Date_now env) expiryTime
                    then (if present (getRefreshToken w)
                          then (False, refreshAccessToken_unawaited env w)
                          else (False, logout_unawaited env w))
                    else (True, w)))"

subsection \<open>withAuth and authFetch\<close>

text \<open>The header \<open>k\<close> that a request made with these options carries, if any.\<close>

definition header :: "options \<Rightarrow> string \<Rightarrow> string option" where
  "header options k = (case headers options of None \<Rightarrow> None | Some h \<Rightarrow> h k)"

definition authorization :: "request \<Rightarrow> string option" where
  "authorization req = header (opts req) ''Authorization''"

text \<open>
  \<^verbatim>\<open>withAuth\<close> returns its argument when there is no token, and otherwise a copy with
  the \<^verbatim>\<open>Authorization\<close> header added to a copy of the caller's headers.
\<close>

definition withAuth :: "world \<Rightarrow> options \<Rightarrow> options" where
  "withAuth w options =
     (case getAccessToken w of
        None \<Rightarrow> options
      | Some token \<Rightarrow>
          if token = [] then options
          else options\<lparr>headers :=
                 Some ((case headers options of None \<Rightarrow> Map.empty | Some h \<Rightarrow> h)
                       (''Authorization'' \<mapsto> ''Bearer '' @ token))\<rparr>)"

text \<open>
  \<^verbatim>\<open>authFetch\<close> has no \<^verbatim>\<open>try\<close>: a fetch that rejects makes the call reject
  (\<open>NetworkError\<close>).
\<close>

definition authFetch :: "platform \<Rightarrow> string \<Rightarrow> options \<Rightarrow> world \<Rightarrow> fetch_result \<times> world" where
  "authFetch env u options w =
     (let authOptions = withAuth w options;
          (r, w1) = fetch env w \<lparr>url = u, opts = authOptions\<rparr>
      in case r of
           NetworkError \<Rightarrow> (NetworkError, w1)
         | Response resp \<Rightarrow>
             if status resp = 401 \<and> present (getRefreshToken w1)
             then (let (refreshed, w2) = refreshAccessToken env w1
                   in if refreshed
                      then (let newAuthOptions = withAuth w2 options
                            in fetch env w2 \<lparr>url = u, opts = newAuthOptions\<rparr>)
                      else (Response resp, w2))
             else (Response resp, w1))"

subsection \<open>login and register\<close>

definition json_post :: "string \<Rightarrow> options" where
  "json_post b =
     \<lparr>headers = Some [''Content-Type'' \<mapsto> ''application/json''],
      other = [''method'' \<mapsto> JStr ''POST'', ''body'' \<mapsto> JStr b]\<rparr>"

definition network_failure :: jsval where
  "network_failure =
     JObj [(''success'', JBool False), (''message'', JStr ''Network error. Please try again.'')]"

text \<open>\<^verbatim>\<open>{success: false, message: data.error || d}\<close>; reading \<^verbatim>\<open>error\<close> of \<^verbatim>\<open>null\<close> throws.\<close>

definition server_failure :: "jsval \<Rightarrow> string \<Rightarrow> jsval" where
  "server_failure data d =
     (case get_prop data ''error'' of
        None \<Rightarrow> network_failure
      | Some e \<Rightarrow> JObj [(''success'', JBool False), (''message'', if truthy e then e else JStr d)])"

text \<open>The object built twice from the login response: for the store and for the caller.\<close>

definition user_of :: "jsval \<Rightarrow> jsval option" where
  "user_of data =
     (case get_prop data ''user_id'' of None \<Rightarrow> None | Some i \<Rightarrow>
      case get_prop data ''username'' of None \<Rightarrow> None | Some u \<Rightarrow>
      case get_prop data ''first_name'' of None \<Rightarrow> None | Some f \<Rightarrow>
      case get_prop data ''last_name'' of None \<Rightarrow> None | Some l \<Rightarrow>
      case get_prop data ''role'' of None \<Rightarrow> None | Some r \<Rightarrow>
        Some (JObj [(''id'', i), (''username'', u), (''firstName'', f), (''lastName'', l),
                    (''role'', r)]))"

text \<open>
  Lines 102 to 124 of \<^verbatim>\<open>login\<close>: three writes in a row, each of which may throw into the
  \<^verbatim>\<open>catch\<close> block, which returns the network failure and undoes nothing.
\<close>

definition login_store :: "platform \<Rightarrow> jsval \<Rightarrow> world \<Rightarrow> jsval \<times> world" where
  "login_store env data w =
     (case get_prop data ''access_token'' of None \<Rightarrow> (network_failure, w) | Some a \<Rightarrow>
      case to_string env a of None \<Rightarrow> (network_failure, w) | Some a' \<Rightarrow>
      case setItem env (store w) ''access_token'' a' of None \<Rightarrow> (network_failure, w) | Some st1 \<Rightarrow>
      case get_prop data ''refresh_token'' of None \<Rightarrow> (network_failure, w\<lparr>store := st1\<rparr>) | Some r \<Rightarrow>
      case to_string env r of None \<Rightarrow> (network_failure, w\<lparr>store := st1\<rparr>) | Some r' \<Rightarrow>
      case setItem env st1 ''refresh_token'' r' of None \<Rightarrow> (network_failure, w\<lparr>store := st1\<rparr>) | Some st2 \<Rightarrow>
      case user_of data of None \<Rightarrow> (network_failure, w\<lparr>store := st2\<rparr>) | Some user \<Rightarrow>
      case setItem env st2 ''user'' (JSON_stringify env user) of
        None \<Rightarrow> (network_failure, w\<lparr>store := st2\<rparr>)
      | Some st3 \<Rightarrow> (JObj [(''success'', JBool True), (''user'', user)], w\<lparr>store := st3\<rparr>))"

definition login_request :: "platform \<Rightarrow> string \<Rightarrow> string \<Rightarrow> request" where
  "login_request env username password =
     \<lparr>url = API_BASE_URL @ ''/auth/login'',
      opts = json_post (JSON_stringify env
               (JObj [(''username'', JStr username), (''password'', JStr password)]))\<rparr>"

definition login :: "platform \<Rightarrow> string \<Rightarrow> string \<Rightarrow> world \<Rightarrow> jsval \<times> world" where
  "login env username password w =
     (let (r, w1) = fetch env w (login_request env username password)
      in case r of
           NetworkError \<Rightarrow> (network_failure, w1)
         | Response resp \<Rightarrow>
             (case body resp of
                None \<Rightarrow> (network_failure, w1)
              | Some data \<Rightarrow>
                  if \<not> ok resp then (server_failure data ''Login failed'', w1)
                  else login_store env data w1))"

definition register_request :: "platform \<Rightarrow> jsval \<Rightarrow> request" where
  "register_request env userData =
     \<lparr>url = API_BASE_URL @ ''/auth/register'', opts = json_post (JSON_stringify env userData)\<rparr>"


subsection \<open>getUser\<close>

text \<open>\<^verbatim>\<open>userJson ? JSON.parse(userJson) : null\<close>; \<open>None\<close> when \<^verbatim>\<open>JSON.parse\<close> throws.\<close>

definition getUser :: "platform \<Rightarrow> world \<Rightarrow> jsval option" where
  "getUser env w =
     (case store w ''user'' of
        None \<Rightarrow> Some JNull
      | Some userJson \<Rightarrow> if userJson = [] then Some JNull else JSON_parse env userJson)"

section \<open>The registration page\<close>

text \<open>The six fields the submit handler of \<^verbatim>\<open>registerForm\<close> reads.\<close>

record register_form =
  firstName :: string
  lastName :: string
  username :: string
  email :: string
  password :: string
  confirmPassword :: string







text \<open>The object the handler passes to \<^verbatim>\<open>register\<close>.\<close>

definition registration_data :: "register_form \<Rightarrow> jsval" where
  "registration_data form =
     JObj [(''first_name'', JStr (firstName form)),
           (''last_name'', JStr (lastName form)),
           (''username'', JStr (username form)),
           (''email'', JStr (email form)),
           (''password'', JStr (password form))]"


section \<open>scripts.js: the role projector\<close>

text \<open>
  An element selected by \<^verbatim>\<open>[data-role-access]\<close>: the attribute and its inline
  \<^verbatim>\<open>style.display\<close>. An empty \<^verbatim>\<open>display\<close> shows the element, \<^verbatim>\<open>none\<close> hides it.
\<close>

record element =
  roleAccess :: string
  display :: string

definition is_whitespace :: "char \<Rightarrow> bool" where
  "is_whitespace c = (of_char c \<in> set [9, 10, 11, 12, 13, 32, 160 :: nat])"

definition js_trim :: "string \<Rightarrow> string" where
  "js_trim s = rev (dropWhile is_whitespace (rev (dropWhile is_whitespace s)))"

text \<open>\<^verbatim>\<open>allowedRoles.includes(v)\<close> on an array of strings: only an equal string is found.\<close>

fun array_includes :: "string list \<Rightarrow> jsval \<Rightarrow> bool" where
  "array_includes xs (JStr s) = (s \<in> set xs)"
| "array_includes xs v = False"

definition allowedRoles :: "element \<Rightarrow> string list" where
  "allowedRoles el = map js_trim (split_on (CHR '','') (roleAccess el))"

definition project :: "jsval \<Rightarrow> element \<Rightarrow> element" where
  "project role el =
     (if array_includes (allowedRoles el) role then el\<lparr>display := []\<rparr> else el\<lparr>display := ''none''\<rparr>)"

text \<open>
  What \<^verbatim>\<open>updateUserUI\<close> can touch on a page: the text of the element \<^verbatim>\<open>userName\<close> and
  the text and class of the element \<^verbatim>\<open>userRole\<close> (\<open>None\<close> when the page has no such
  element), and the gated elements in document order.
\<close>

record page =
  userName :: "string option"
  userRole :: "(string \<times> string) option"
  gated :: "element list"

text \<open>
  The string an assignment to \<^verbatim>\<open>textContent\<close> stores: empty for \<^verbatim>\<open>null\<close> and
  \<^verbatim>\<open>undefined\<close>, the string conversion otherwise (\<open>None\<close> when it throws).
\<close>

fun text_content :: "platform \<Rightarrow> jsval \<Rightarrow> string option" where
  "text_content env JUndefined = Some []"
| "text_content env JNull = Some []"
| "text_content env v = to_string env v"

text \<open>The \<^verbatim>\<open>switch\<close> over \<^verbatim>\<open>user.role\<close>, with \<^verbatim>\<open>bg-secondary\<close> as the default.\<close>

fun badgeClass :: "jsval \<Rightarrow> string" where
  "badgeClass (JStr r) =
     (if r = ''admin'' then ''bg-danger''
      else if r = ''doctor'' then ''bg-primary''
      else if r = ''nurse'' then ''bg-success''
      else if r = ''receptionist'' then ''bg-info''
      else if r = ''data_analyst'' then ''bg-warning''
      else ''bg-secondary'')"
| "badgeClass v = ''bg-secondary''"

text \<open>
  Lines 63 to 67: the template literal converts the first and the last name to strings,
  which throws for an object that cannot be converted (\<open>None\<close>).
\<close>

definition set_user_name :: "platform \<Rightarrow> jsval \<Rightarrow> page \<Rightarrow> page option" where
  "set_user_name env user pg =
     (case userName pg of
        None \<Rightarrow> Some pg
      | Some old \<Rightarrow>
          (case get_prop user ''firstName'' of None \<Rightarrow> None | Some f \<Rightarrow>
           case to_string env f of None \<Rightarrow> None | Some a \<Rightarrow>
           case get_prop user ''lastName'' of None \<Rightarrow> None | Some l \<Rightarrow>
           case to_string env l of None \<Rightarrow> None | Some b \<Rightarrow>
             Some (pg\<lparr>userName := Some (a @ '' '' @ b)\<rparr>)))"

text \<open>Lines 69 to 95: the text of the badge, then its class.\<close>

definition set_role_badge :: "platform \<Rightarrow> jsval \<Rightarrow> page \<Rightarrow> page option" where
  "set_role_badge env role pg =
     (case userRole pg of
        None \<Rightarrow> Some pg
      | Some old \<Rightarrow>
          (case text_content env role of
             None \<Rightarrow> None
           | Some t \<Rightarrow> Some (pg\<lparr>userRole := Some (t, ''badge '' @ badgeClass role)\<rparr>)))"

text \<open>
  \<^verbatim>\<open>updateUserUI\<close>: whether it ran to its end (it does not when \<^verbatim>\<open>getUser\<close> or a
  string conversion throws) and the page it leaves.
\<close>

definition updateUserUI :: "platform \<Rightarrow> world \<Rightarrow> page \<Rightarrow> bool \<times> page" where
  "updateUserUI env w pg =
     (case getUser env w of
        None \<Rightarrow> (False, pg)
      | Some user \<Rightarrow>
          if \<not> truthy user then (True, pg)
          else (case set_user_name env user pg of
                  None \<Rightarrow> (False, pg)
                | Some pg1 \<Rightarrow>
                    (case get_prop user ''role'' of
                       None \<Rightarrow> (False, pg1)
                     | Some role \<Rightarrow>
                         (case set_role_badge env role pg1 of
                            None \<Rightarrow> (False, pg1)
                          | Some pg2 \<Rightarrow>
                              (True, pg2\<lparr>gated := map (project role) (gated pg2)\<rparr>)))))"

section \<open>Sequences of session operations\<close>

text \<open>
  A session operation together with the platform's behaviour at the time it runs (the clock
  and the server differ from one call to the next). \<open>Settle i\<close> is not a call: it is the
  moment the fetch of the \<open>i\<close>-th pending continuation settles and the continuation runs.
\<close>

datatype op =
    Login platform string string
  | Logout platform
  | Refresh platform
  | Check platform
  | Settle platform nat

fun exec :: "op \<Rightarrow> world \<Rightarrow> world" where
  "exec (Login env u p) w = snd (login env u p w)"
| "exec (Logout env) w = snd (logout env w)"
| "exec (Refresh env) w = snd (refreshAccessToken env w)"
| "exec (Check env) w = snd (isAuthenticated env w)"
| "exec (Settle env i) w =
     (if i < length (pending w)
      then run_task env (pending w ! i) (w\<lparr>pending := take i (pending w) @ drop (Suc i) (pending w)\<rparr>)
      else w)"

fun op_env :: "op \<Rightarrow> platform" where
  "op_env (Login env u p) = env"
| "op_env (Logout env) = env"
| "op_env (Refresh env) = env"
| "op_env (Check env) = env"
| "op_env (Settle env i) = env"

definition empty_world :: world where
  "empty_world = \<lparr>store = Map.empty, requests = [], pending = []\<rparr>"

definition run :: "op list \<Rightarrow> world \<Rightarrow> world" where
  "run ops w = fold exec ops w"

text \<open>
  Running every pending continuation, oldest first, until none is left: what the store
  looks like when the background work an operation has started is over.
\<close>

fun task_weight :: "task \<Rightarrow> nat" where
  "task_weight LogoutCont = 1"
| "task_weight (RefreshCont r) = 2"

function quiesce :: "platform \<Rightarrow> world \<Rightarrow> world" where
  "quiesce env w =
     (case pending w of
        [] \<Rightarrow> w
      | t # ts \<Rightarrow> quiesce env (run_task env t (w\<lparr>pending := ts\<rparr>)))"
  by pat_completeness auto
termination
proof (relation "measure (\<lambda>(env, w). sum_list (map task_weight (pending w)))")
  fix env :: platform and w :: world and t ts
  assume "pending w = t # ts"
  then show "((env, run_task env t (w\<lparr>pending := ts\<rparr>)), (env, w))
             \<in> measure (\<lambda>(env, w). sum_list (map task_weight (pending w)))"
    by (cases t)
       (auto simp: refresh_continue_def logout_unawaited_def logout_finish_def fetch_def
                   getAccessToken_def Let_def
             split: fetch_result.splits option.splits if_splits)
qed simp

declare quiesce.simps [simp del]

definition exec_atomic :: "op \<Rightarrow> world \<Rightarrow> world" where
  "exec_atomic x w = quiesce (op_env x) (exec x w)"

definition run_atomic :: "op list \<Rightarrow> world \<Rightarrow> world" where
  "run_atomic ops w = fold exec_atomic ops w"


text \<open>Whether a key is in the store, whatever string it holds.\<close>

definition has_key :: "(string \<rightharpoonup> string) \<Rightarrow> string \<Rightarrow> bool" where
  "has_key st k = (case st k of None \<Rightarrow> False | Some v \<Rightarrow> True)"

definition all_or_none :: "(string \<rightharpoonup> string) \<Rightarrow> bool" where
  "all_or_none st =
     (has_key st ''access_token'' = has_key st ''user'' \<and>
      has_key st ''refresh_token'' = has_key st ''user'')"

text \<open>A world at rest: all three keys or none, and no continuation waiting.\<close>

definition settled :: "world \<Rightarrow> bool" where
  "settled w = (all_or_none (store w) \<and> pending w = [])"

section \<open>Base64 as the browser decodes it\<close>

text \<open>
  \<^verbatim>\<open>atob\<close> as the HTML standard defines it (forgiving-base64 decode): ASCII whitespace is
  dropped, one or two trailing \<^verbatim>\<open>=\<close> are dropped when the length is a multiple of 4, a
  length that leaves remainder 1 fails, and so does any character outside
  \<^verbatim>\<open>A-Z a-z 0-9 + /\<close>. The characters \<^verbatim>\<open>-\<close> and \<^verbatim>\<open>_\<close> of base64url are outside.
\<close>

definition b64_value :: "char \<Rightarrow> nat option" where
  "b64_value c =
     (let n = (of_char c :: nat)
      in if 65 \<le> n \<and> n \<le> 90 then Some (n - 65)
         else if 97 \<le> n \<and> n \<le> 122 then Some (n - 71)
         else if 48 \<le> n \<and> n \<le> 57 then Some (n + 4)
         else if n = 43 then Some 62
         else if n = 47 then Some 63
         else None)"

fun b64_bytes :: "nat list \<Rightarrow> nat list" where
  "b64_bytes (a # b # c # d # rest) =
     (a * 4 + b div 16) # ((b mod 16) * 16 + c div 4) # ((c mod 4) * 64 + d) # b64_bytes rest"
| "b64_bytes [a, b, c] = [a * 4 + b div 16, (b mod 16) * 16 + c div 4]"
| "b64_bytes [a, b] = [a * 4 + b div 16]"
| "b64_bytes xs = []"

definition is_ascii_whitespace :: "char \<Rightarrow> bool" where
  "is_ascii_whitespace c = ((of_char c :: nat) \<in> set [9, 10, 12, 13, 32])"

definition strip_padding :: "string \<Rightarrow> string" where
  "strip_padding s =
     (if length s mod 4 = 0
      then (case rev s of
              x # y # r \<Rightarrow>
                if x = CHR ''='' \<and> y = CHR ''='' then rev r
                else if x = CHR ''='' then rev (y # r)
                else s
            | r \<Rightarrow> s)
      else s)"

definition atob_model :: "string \<Rightarrow> string option" where
  "atob_model s =
     (let d = strip_padding (filter (\<lambda>c. \<not> is_ascii_whitespace c) s)
      in if length d mod 4 = 1 then None
         else (case those (map b64_value d) of
                 None \<Rightarrow> None
               | Some vs \<Rightarrow> Some (map char_of (b64_bytes vs))))"

text \<open>
  The decoding the specification names for the middle segment of a token: base64url, which
  writes \<^verbatim>\<open>-\<close> for \<^verbatim>\<open>+\<close> and \<^verbatim>\<open>_\<close> for \<^verbatim>\<open>/\<close> and leaves the padding out.
\<close>

definition base64url_decode :: "string \<Rightarrow> string option" where
  "base64url_decode s =
     atob_model (map (\<lambda>c. if c = CHR ''-'' then CHR ''+''
                           else if c = CHR ''_'' then CHR ''/'' else c) s)"

section \<open>A concrete platform\<close>

text \<open>
  A platform to evaluate the code on. Its built-ins are tables that agree with the browser
  on the strings this development applies them to: \<^verbatim>\<open>atob("eyJleHAiOjF9")\<close> is
  \<^verbatim>\<open>{"exp":1}\<close>, \<^verbatim>\<open>atob("eyJleHAiOjJ9")\<close> is \<^verbatim>\<open>{"exp":2}\<close>, \<^verbatim>\<open>atob("e30")\<close> is
  \<^verbatim>\<open>{}\<close>, and \<^verbatim>\<open>atob("undefined")\<close> throws. The conversions of strings, arrays and
  objects are never reached.
\<close>

definition exp1_json :: string where
  \<open>exp1_json = ''{"exp":1}''\<close>

definition exp2_json :: string where
  \<open>exp2_json = ''{"exp":2}''\<close>

definition demo_atob :: "string \<Rightarrow> string option" where
  "demo_atob s =
     (if s = ''eyJleHAiOjF9'' then Some exp1_json
      else if s = ''eyJleHAiOjJ9'' then Some exp2_json
      else if s = ''e30'' then Some ''{}''
      else None)"

definition demo_user :: jsval where
  "demo_user =
     JObj [(''id'', JNum 7), (''username'', JStr ''alice''), (''firstName'', JStr ''Alice''),
           (''lastName'', JStr ''Smith''), (''role'', JStr ''nurse'')]"

definition demo_user_json :: string where
  \<open>demo_user_json =
     ''{"id":7,"username":"alice","firstName":"Alice","lastName":"Smith","role":"nurse"}''\<close>

definition demo_parse :: "string \<Rightarrow> jsval option" where
  "demo_parse s =
     (if s = exp1_json then Some (JObj [(''exp'', JNum 1)])
      else if s = exp2_json then Some (JObj [(''exp'', JNum 2)])
      else if s = ''{}'' then Some (JObj [])
      else if s = demo_user_json then Some demo_user
      else None)"

definition demo_stringify :: "jsval \<Rightarrow> string" where
  \<open>demo_stringify v =
     (if v = demo_user then demo_user_json
      else if v = JObj [(''username'', JStr ''alice''), (''password'', JStr ''Secret#123'')]
      then ''{"username":"alice","password":"Secret#123"}''
      else if v = JObj [(''password'', JStr ''abc'')] then ''{"password":"abc"}''
      else if v = JObj [(''first_name'', JStr ''Alice''), (''last_name'', JStr ''Smith''),
                        (''username'', JStr ''alice''), (''email'', JStr ''alice@example.org''),
                        (''password'', JStr ''Secret#123'')]
      then ''{"first_name":"Alice","last_name":"Smith","username":"alice","email":"alice@example.org","password":"Secret#123"}''
      else if v = JObj [(''first_name'', JStr ''Alice''), (''last_name'', JStr ''Smith''),
                        (''username'', JStr ''alice''), (''email'', JStr ''alice@example.org''),
                        (''password'', JStr ''abc'')]
      then ''{"first_name":"Alice","last_name":"Smith","username":"alice","email":"alice@example.org","password":"abc"}''
      else ''{}'')\<close>

text \<open>
  Two access tokens: the payload of the first is \<^verbatim>\<open>{"exp":1}\<close>, that of the second
  \<^verbatim>\<open>{"exp":2}\<close>; and a token whose payload \<^verbatim>\<open>{}\<close> has no \<^verbatim>\<open>exp\<close>.
\<close>

definition token1 :: string where
  "token1 = ''h.eyJleHAiOjF9.s''"

definition token2 :: string where
  "token2 = ''h.eyJleHAiOjJ9.s''"

definition token_no_exp :: string where
  "token_no_exp = ''h.e30.s''"

definition demo_login_body :: jsval where
  "demo_login_body =
     JObj [(''access_token'', JStr token1), (''refresh_token'', JStr ''r1''),
           (''user_id'', JNum 7), (''username'', JStr ''alice''), (''first_name'', JStr ''Alice''),
           (''last_name'', JStr ''Smith''), (''role'', JStr ''nurse'')]"

definition unauthorized :: response where
  "unauthorized = \<lparr>status = 401, body = Some (JObj [(''error'', JStr ''Token has expired'')])\<rparr>"

text \<open>
  A server: it logs \<^verbatim>\<open>alice\<close> in with \<open>token1\<close>, answers a refresh with \<open>refresh_answer\<close>,
  accepts every logout and registration, and serves any other URL to the bearer of
  \<open>token2\<close> only.
\<close>

definition demo_server :: "fetch_result \<Rightarrow> request list \<Rightarrow> request \<Rightarrow> fetch_result" where
  "demo_server refresh_answer history req =
     (if url req = API_BASE_URL @ ''/auth/login''
      then Response \<lparr>status = 200, body = Some demo_login_body\<rparr>
      else if url req = API_BASE_URL @ ''/auth/refresh'' then refresh_answer
      else if url req = API_BASE_URL @ ''/auth/logout''
      then Response \<lparr>status = 200, body = Some (JObj [])\<rparr>
      else if url req = API_BASE_URL @ ''/auth/register''
      then Response \<lparr>status = 201, body = Some (JObj [])\<rparr>
      else if authorization req = Some (''Bearer '' @ token2)
      then Response \<lparr>status = 200, body = Some (JArr [])\<rparr>
      else Response unauthorized)"

text \<open>A caller's request: a URL that is not a session endpoint, a method, a body and a header.\<close>

definition patients_url :: string where
  "patients_url = API_BASE_URL @ ''/patients''"

definition post_options :: options where
  "post_options =
     \<lparr>headers = Some [''Content-Type'' \<mapsto> ''application/json''],
      other = [''method'' \<mapsto> JStr ''POST'', ''body'' \<mapsto> JStr ''{}'']\<rparr>"

definition refresh_granted :: fetch_result where
  "refresh_granted = Response \<lparr>status = 200, body = Some (JObj [(''access_token'', JStr token2)])\<rparr>"

definition refresh_denied :: fetch_result where
  "refresh_denied = Response \<lparr>status = 401, body = Some (JObj [(''error'', JStr ''Token has been revoked'')])\<rparr>"

definition demo_platform ::
  "int \<Rightarrow> ((string \<rightharpoonup> string) \<Rightarrow> string \<Rightarrow> string \<Rightarrow> bool) \<Rightarrow> fetch_result \<Rightarrow> platform" where
  "demo_platform now quota refresh_answer =
     \<lparr>atob = demo_atob, JSON_parse = demo_parse, JSON_stringify = demo_stringify,
      ToNumber_other = (\<lambda>v. Some NaN), ToString_other = (\<lambda>v. Some ''[object Object]''),
      Date_now = now, quota_ok = quota, server = demo_server refresh_answer\<rparr>"

text \<open>The same platform with no network, and with a server that answers 401 to everything.\<close>

definition offline_platform :: platform where
  "offline_platform =
     (demo_platform 0 (\<lambda>st k v. True) refresh_denied)\<lparr>server := (\<lambda>history req. NetworkError)\<rparr>"

definition rejecting_platform :: platform where
  "rejecting_platform =
     (demo_platform 0 (\<lambda>st k v. True) refresh_denied)
       \<lparr>server := (\<lambda>history req. Response unauthorized)\<rparr>"

definition unlimited :: "(string \<rightharpoonup> string) \<Rightarrow> string \<Rightarrow> string \<Rightarrow> bool" where
  "unlimited st k v = True"

text \<open>A store that is full once the access token is written.\<close>

definition full_after_access_token :: "(string \<rightharpoonup> string) \<Rightarrow> string \<Rightarrow> string \<Rightarrow> bool" where
  "full_after_access_token st k v = (k = ''access_token'')"

text \<open>
  A page with the navbar's name and badge as the HTML has them, one element gated to
  doctors and admins and one to nurses and admins; and the same page after the projection
  of \<^verbatim>\<open>alice\<close>, a nurse.
\<close>

definition demo_page :: page where
  "demo_page =
     \<lparr>userName = Some ''User'', userRole = Some (''Role'', ''ms-2 badge bg-secondary''),
      gated = [\<lparr>roleAccess = ''doctor,admin'', display = []\<rparr>,
               \<lparr>roleAccess = ''nurse, admin'', display = ''none''\<rparr>]\<rparr>"

definition nurse_page :: page where
  "nurse_page =
     \<lparr>userName = Some ''Alice Smith'', userRole = Some (''nurse'', ''badge bg-success''),
      gated = [\<lparr>roleAccess = ''doctor,admin'', display = ''none''\<rparr>,
               \<lparr>roleAccess = ''nurse, admin'', display = []\<rparr>]\<rparr>"

text \<open>Two registration forms: one with the password \<^verbatim>\<open>abc\<close>, one that passes every check.\<close>

definition weak_form :: register_form where
  "weak_form = \<lparr>firstName = ''Alice'', lastName = ''Smith'', username = ''alice'',
                 email = ''alice@example.org'', password = ''abc'', confirmPassword = ''abc''\<rparr>"

definition good_form :: register_form where
  "good_form = weak_form\<lparr>password := ''Secret#123'', confirmPassword := ''Secret#123''\<rparr>"

text \<open>The store after \<^verbatim>\<open>alice\<close> has logged in, and a world that holds it.\<close>

definition session_store :: "string \<rightharpoonup> string" where
  "session_store =
     [''access_token'' \<mapsto> token1, ''refresh_token'' \<mapsto> ''r1'', ''user'' \<mapsto> demo_user_json]"

definition session_world :: world where
  "session_world = \<lparr>store = session_store, requests = [], pending = []\<rparr>"

text \<open>The same session with a token whose payload has no \<^verbatim>\<open>exp\<close>.\<close>

definition no_exp_world :: world where
  "no_exp_world =
     \<lparr>store = session_store(''access_token'' \<mapsto> token_no_exp), requests = [], pending = []\<rparr>"

text \<open>A world whose store holds a refresh token and nothing else.\<close>

definition refresh_only_world :: world where
  "refresh_only_world = \<lparr>store = [''refresh_token'' \<mapsto> ''r1''], requests = [], pending = []\<rparr>"

text \<open>
  A token as a server issues it: its middle segment is the base64url encoding of
  \<^verbatim>\<open>{"exp":9999999999,"sub":"a?"}\<close> and contains the character \<^verbatim>\<open>_\<close>. The platform
  below is the concrete one with \<^verbatim>\<open>atob\<close> as the browser has it.
\<close>

definition sub_json :: string where
  \<open>sub_json = ''{"exp":9999999999,"sub":"a?"}''\<close>

definition url_segment :: string where
  "url_segment = ''eyJleHAiOjk5OTk5OTk5OTksInN1YiI6ImE_In0''"

definition url_token :: string where
  "url_token = ''h.'' @ url_segment @ ''.s''"

definition browser_platform :: "int \<Rightarrow> platform" where
  "browser_platform now =
     (demo_platform now (\<lambda>st k v. True) refresh_granted)
       \<lparr>atob := atob_model,
        JSON_parse := (\<lambda>s. if s = sub_json
                            then Some (JObj [(''exp'', JNum 9999999999), (''sub'', JStr ''a?'')])
                            else demo_parse s)\<rparr>"

definition url_world :: world where
  "url_world =
     \<lparr>store = session_store(''access_token'' \<mapsto> url_token), requests = [], pending = []\<rparr>"

text \<open>
  Two more worlds: a session whose access token is not a token at all, and a store that
  holds an expired access token and nothing else.
\<close>

definition garbage_world :: world where
  "garbage_world =
     \<lparr>store = session_store(''access_token'' \<mapsto> ''garbage''), requests = [], pending = []\<rparr>"

definition access_only_world :: world where
  "access_only_world = \<lparr>store = [''access_token'' \<mapsto> token1], requests = [], pending = []\<rparr>"


section \<open>Facts about the session operations\<close>

lemma logout_finish_store:
  "store (logout_finish w) =
     (store w)(''access_token'' := None, ''refresh_token'' := None, ''user'' := None)"
  by (simp add: logout_finish_def removeItem_def)

lemma logout_finish_rest:
  "requests (logout_finish w) = requests w" "pending (logout_finish w) = pending w"
  by (simp_all add: logout_finish_def)

lemma logout_unawaited_cases:
  "logout_unawaited env w =
     (if present (getAccessToken w)
      then w\<lparr>requests := requests w @ [logout_request (the (getAccessToken w))],
             pending := pending w @ [LogoutCont]\<rparr>
      else logout_finish w)"
  by (cases "getAccessToken w") (simp_all add: logout_unawaited_def fetch_def Let_def)

lemma refresh_continue_cases:
  "(\<exists>s. refresh_continue env r w = (True, w\<lparr>store := (store w)(''access_token'' \<mapsto> s)\<rparr>)) \<or>
   refresh_continue env r w = (False, logout_unawaited env w)"
  by (auto simp: refresh_continue_def setItem_def split: fetch_result.splits option.splits)

lemma refreshAccessToken_cases:
  assumes "getRefreshToken w = Some t" and "t \<noteq> []"
  shows "(\<exists>s. refreshAccessToken env w =
            (True, w\<lparr>requests := requests w @ [refresh_request t],
                     store := (store w)(''access_token'' \<mapsto> s)\<rparr>)) \<or>
         refreshAccessToken env w =
            (False, logout_unawaited env (w\<lparr>requests := requests w @ [refresh_request t]\<rparr>))"
  using assms refresh_continue_cases [of env "server env (requests w) (refresh_request t)"
                 "w\<lparr>requests := requests w @ [refresh_request t]\<rparr>"]
  by (auto simp: refreshAccessToken_def fetch_def)

lemma refreshAccessToken_absent:
  "\<not> present (getRefreshToken w) \<Longrightarrow> refreshAccessToken env w = (False, w)"
  by (cases "getRefreshToken w") (simp_all add: refreshAccessToken_def)

lemma demo_simps:
  "atob (demo_platform now q ra) = demo_atob"
  "JSON_parse (demo_platform now q ra) = demo_parse"
  "JSON_stringify (demo_platform now q ra) = demo_stringify"
  "Date_now (demo_platform now q ra) = now"
  "quota_ok (demo_platform now q ra) = q"
  "server (demo_platform now q ra) = demo_server ra"
  "ToNumber_other (demo_platform now q ra) = (\<lambda>v. Some NaN)"
  "ToString_other (demo_platform now q ra) = (\<lambda>v. Some ''[object Object]'')"
  by (simp_all add: demo_platform_def)

section \<open>The expiry check\<close>

text \<open>
  Where the middle segment of the stored token decodes (\<^verbatim>\<open>atob\<close> and \<^verbatim>\<open>JSON.parse\<close>
  succeed on it) to a payload whose \<^verbatim>\<open>exp\<close> is a whole number \<open>e\<close> of seconds,
  \<^verbatim>\<open>isAuthenticated\<close> compares \<^verbatim>\<open>Date.now()\<close> with \<open>e * 1000\<close>: an expiry strictly in the
  past is reported invalid, an expiry strictly in the future valid, and an expiry equal to
  the current time invalid, the test being \<^verbatim>\<open>Date.now() >= expiryTime\<close>.
\<close>

lemma isAuthenticated_expiry:
  assumes "getAccessToken w = Some token" and "token \<noteq> []"
    and "atob env (payload_segment token) = Some s"
    and "JSON_parse env s = Some payload"
    and "get_prop payload ''exp'' = Some (JNum e)"
  shows "(e * 1000 < Date_now env \<longrightarrow> \<not> fst (isAuthenticated env w)) \<and>
         (Date_now env < e * 1000 \<longrightarrow> fst (isAuthenticated env w)) \<and>
         (e * 1000 = Date_now env \<longrightarrow> \<not> fst (isAuthenticated env w))"
  using assms
  by (simp add: isAuthenticated_def expiry_time_def payload_exp_def)

text \<open>
  The token \<open>token1\<close> expires at second 1: it is invalid at millisecond 1001, valid at
  millisecond 999 and invalid at millisecond 1000.
\<close>

lemma isAuthenticated_expiry_example:
  "getAccessToken session_world = Some token1 \<and> token1 \<noteq> [] \<and>
   demo_atob (payload_segment token1) = Some exp1_json \<and>
   demo_parse exp1_json = Some (JObj [(''exp'', JNum 1)]) \<and>
   get_prop (JObj [(''exp'', JNum 1)]) ''exp'' = Some (JNum 1) \<and>
   \<not> fst (isAuthenticated (demo_platform 1001 unlimited refresh_granted) session_world) \<and>
   fst (isAuthenticated (demo_platform 999 unlimited refresh_granted) session_world) \<and>
   \<not> fst (isAuthenticated (demo_platform 1000 unlimited refresh_granted) session_world)"
proof -
  have tok: "getAccessToken session_world = Some token1" "token1 \<noteq> []"
    by (simp_all add: getAccessToken_def session_world_def session_store_def token1_def)
  have seg: "demo_atob (payload_segment token1) = Some exp1_json"
    by (simp add: payload_segment_def token1_def demo_atob_def)
  have parse: "demo_parse exp1_json = Some (JObj [(''exp'', JNum 1)])"
    by (simp add: demo_parse_def)
  have expv: "get_prop (JObj [(''exp'', JNum 1)]) ''exp'' = Some (JNum 1)"
    by simp
  note inst = isAuthenticated_expiry [of session_world token1 _ exp1_json
                 "JObj [(''exp'', JNum 1)]" 1, OF tok _ _ expv]
  from inst [of "demo_platform 1001 unlimited refresh_granted"]
       inst [of "demo_platform 999 unlimited refresh_granted"]
       inst [of "demo_platform 1000 unlimited refresh_granted"]
       tok seg parse expv
  show ?thesis by (simp add: demo_simps)
qed

section \<open>The authenticated request wrapper\<close>

lemma withAuth_absent: "\<not> present (getAccessToken w) \<Longrightarrow> withAuth w options = options"
  by (cases "getAccessToken w") (simp_all add: withAuth_def)

lemma withAuth_present:
  assumes "getAccessToken w = Some token" and "token \<noteq> []"
  shows "other (withAuth w options) = other options"
    and "header (withAuth w options) ''Authorization'' = Some (''Bearer '' @ token)"
    and "k \<noteq> ''Authorization'' \<Longrightarrow> header (withAuth w options) k = header options k"
  using assms by (simp_all add: withAuth_def header_def split: option.splits)

lemma authFetch_unfold:
  "authFetch env u options w =
     (case server env (requests w) \<lparr>url = u, opts = withAuth w options\<rparr> of
        NetworkError \<Rightarrow>
          (NetworkError, w\<lparr>requests := requests w @ [\<lparr>url = u, opts = withAuth w options\<rparr>]\<rparr>)
      | Response resp \<Rightarrow>
          if status resp = 401 \<and> present (getRefreshToken w)
          then (case refreshAccessToken env
                       (w\<lparr>requests := requests w @ [\<lparr>url = u, opts = withAuth w options\<rparr>]\<rparr>) of
                  (refreshed, w2) \<Rightarrow>
                    if refreshed then fetch env w2 \<lparr>url = u, opts = withAuth w2 options\<rparr>
                    else (Response resp, w2))
          else (Response resp,
                w\<lparr>requests := requests w @ [\<lparr>url = u, opts = withAuth w options\<rparr>]\<rparr>))"
  by (simp add: authFetch_def fetch_def Let_def getRefreshToken_def
           split: fetch_result.splits prod.splits)

lemma authFetch_first_request:
  "\<exists>rest. requests (snd (authFetch env u options w)) =
           requests w @ \<lparr>url = u, opts = withAuth w options\<rparr> # rest"
proof (cases "present (getRefreshToken w)")
  case False
  then show ?thesis
    by (auto simp: authFetch_unfold split: fetch_result.splits)
next
  case True
  then obtain t where t: "getRefreshToken w = Some t" "t \<noteq> []"
    by (cases "getRefreshToken w") auto
  let ?w1 = "w\<lparr>requests := requests w @ [\<lparr>url = u, opts = withAuth w options\<rparr>]\<rparr>"
  have t1: "getRefreshToken ?w1 = Some t" using t by (simp add: getRefreshToken_def)
  from refreshAccessToken_cases [OF t1 t(2), of env] show ?thesis
    by (auto simp: authFetch_unfold fetch_def logout_unawaited_cases logout_finish_rest
             split: fetch_result.splits)
qed

lemma authFetch_retry_request:
  assumes "server env (requests w) \<lparr>url = u, opts = withAuth w options\<rparr> = Response resp"
    and "status resp = 401" and "present (getRefreshToken w)"
    and "refreshAccessToken env (w\<lparr>requests := requests w @ [\<lparr>url = u, opts = withAuth w options\<rparr>]\<rparr>)
           = (True, w2)"
  shows "authFetch env u options w = fetch env w2 \<lparr>url = u, opts = withAuth w2 options\<rparr>"
  using assms by (simp add: authFetch_unfold)

text \<open>
  Claim C1. One call of \<^verbatim>\<open>authFetch\<close>, with \<open>req1\<close> the request it issues first. When
  the first response has status 401 and a refresh token is stored, one refresh request is
  issued; if the refresh succeeds the stored access token is replaced and the original
  request is issued once more, with the options \<^verbatim>\<open>withAuth\<close> builds from the new token,
  and the answer to that retry is returned; if the refresh fails the original 401 response
  is returned and nothing is retried (the forced logout that the failed refresh starts may
  add its logout request). When the first response is 401 and no refresh token is stored,
  or is not 401, or the fetch rejects, the first request is the only one. In every case at
  most three requests are issued, so the original request is never retried twice.
\<close>

theorem authFetch_refresh_and_retry:
  assumes req1: "req1 = \<lparr>url = u, opts = withAuth w options\<rparr>"
    and call: "authFetch env u options w = (result, w')"
    and refresh: "refreshAccessToken env (w\<lparr>requests := requests w @ [req1]\<rparr>) = (refreshed, w2)"
  shows
    "(\<forall>resp. server env (requests w) req1 = Response resp \<and> status resp = 401 \<and>
        present (getRefreshToken w) \<and> refreshed \<longrightarrow>
        (\<exists>t s. getRefreshToken w = Some t \<and> store w2 = (store w)(''access_token'' \<mapsto> s) \<and>
           requests w' =
             requests w @ [req1, refresh_request t, \<lparr>url = u, opts = withAuth w2 options\<rparr>] \<and>
           result = server env (requests w @ [req1, refresh_request t])
                      \<lparr>url = u, opts = withAuth w2 options\<rparr>)) \<and>
     (\<forall>resp. server env (requests w) req1 = Response resp \<and> status resp = 401 \<and>
        present (getRefreshToken w) \<and> \<not> refreshed \<longrightarrow>
        (\<exists>t. getRefreshToken w = Some t \<and> result = Response resp \<and>
           requests w' =
             requests w @ [req1, refresh_request t] @
             (case getAccessToken w of
                None \<Rightarrow> []
              | Some a \<Rightarrow> if a = [] then [] else [logout_request a]))) \<and>
     (\<forall>resp. server env (requests w) req1 = Response resp \<and> status resp = 401 \<and>
        \<not> present (getRefreshToken w) \<longrightarrow>
        result = Response resp \<and> w' = w\<lparr>requests := requests w @ [req1]\<rparr>) \<and>
     (\<forall>resp. server env (requests w) req1 = Response resp \<and> status resp \<noteq> 401 \<longrightarrow>
        result = Response resp \<and> w' = w\<lparr>requests := requests w @ [req1]\<rparr>) \<and>
     (server env (requests w) req1 = NetworkError \<longrightarrow>
        result = NetworkError \<and> w' = w\<lparr>requests := requests w @ [req1]\<rparr>) \<and>
     length (requests w') \<le> length (requests w) + 3"
proof -
  let ?w1 = "w\<lparr>requests := requests w @ [req1]\<rparr>"
  note unf = authFetch_unfold [of env u options w, folded req1, unfolded call refresh]
  have absent: "\<not> present (getRefreshToken w) \<Longrightarrow> w2 = ?w1 \<and> \<not> refreshed"
    using refreshAccessToken_absent [of ?w1 env] refresh by (simp add: getRefreshToken_def)
  have there: "\<exists>t. getRefreshToken w = Some t \<and>
          ((\<exists>s. refreshed \<and> w2 = ?w1\<lparr>requests := requests ?w1 @ [refresh_request t],
                                       store := (store w)(''access_token'' \<mapsto> s)\<rparr>) \<or>
           (\<not> refreshed \<and>
            w2 = logout_unawaited env (?w1\<lparr>requests := requests ?w1 @ [refresh_request t]\<rparr>)))"
    if "present (getRefreshToken w)"
  proof -
    from that obtain t where t: "getRefreshToken w = Some t" "t \<noteq> []"
      by (cases "getRefreshToken w") auto
    then have "getRefreshToken ?w1 = Some t" by (simp add: getRefreshToken_def)
    from refreshAccessToken_cases [OF this t(2), of env] refresh t show ?thesis by auto
  qed
  have p1: "\<forall>resp. server env (requests w) req1 = Response resp \<and> status resp = 401 \<and>
        present (getRefreshToken w) \<and> refreshed \<longrightarrow>
        (\<exists>t s. getRefreshToken w = Some t \<and> store w2 = (store w)(''access_token'' \<mapsto> s) \<and>
           requests w' =
             requests w @ [req1, refresh_request t, \<lparr>url = u, opts = withAuth w2 options\<rparr>] \<and>
           result = server env (requests w @ [req1, refresh_request t])
                      \<lparr>url = u, opts = withAuth w2 options\<rparr>)"
    using unf there by (fastforce simp: fetch_def)
  have p2: "\<forall>resp. server env (requests w) req1 = Response resp \<and> status resp = 401 \<and>
        present (getRefreshToken w) \<and> \<not> refreshed \<longrightarrow>
        (\<exists>t. getRefreshToken w = Some t \<and> result = Response resp \<and>
           requests w' =
             requests w @ [req1, refresh_request t] @
             (case getAccessToken w of
                None \<Rightarrow> []
              | Some a \<Rightarrow> if a = [] then [] else [logout_request a]))"
    using unf there
    by (auto simp: logout_unawaited_cases logout_finish_rest getAccessToken_def
             split: option.splits)
  have p3: "\<forall>resp. server env (requests w) req1 = Response resp \<and> status resp = 401 \<and>
        \<not> present (getRefreshToken w) \<longrightarrow>
        result = Response resp \<and> w' = ?w1"
    using unf by auto
  have p4: "\<forall>resp. server env (requests w) req1 = Response resp \<and> status resp \<noteq> 401 \<longrightarrow>
        result = Response resp \<and> w' = ?w1"
    using unf by auto
  have p5: "server env (requests w) req1 = NetworkError \<longrightarrow> result = NetworkError \<and> w' = ?w1"
    using unf by auto
  have p6: "length (requests w') \<le> length (requests w) + 3"
  proof (cases "server env (requests w) req1")
    case NetworkError
    with p5 show ?thesis by simp
  next
    case (Response resp)
    show ?thesis
    proof (cases "status resp = 401 \<and> present (getRefreshToken w)")
      case False
      with Response p3 p4 show ?thesis by (cases "status resp = 401") auto
    next
      case True
      with Response p1 p2 show ?thesis
        by (cases refreshed) (auto split: option.splits if_splits)
    qed
  qed
  from p1 p2 p3 p4 p5 p6 show ?thesis by blast
qed

lemmas demo_defs =
  demo_simps demo_server_def demo_atob_def demo_parse_def demo_stringify_def
  session_world_def session_store_def empty_world_def token1_def token2_def
  refresh_granted_def refresh_denied_def patients_url_def post_options_def
  unlimited_def demo_login_body_def demo_user_def unauthorized_def
  refresh_only_world_def no_exp_world_def token_no_exp_def

lemmas code_defs =
  authFetch_unfold withAuth_def refreshAccessToken_def refresh_continue_def fetch_def
  logout_unawaited_def logout_finish_def removeItem_def setItem_def getAccessToken_def
  getRefreshToken_def refresh_request_def logout_request_def bearer_def ok_def
  authorization_def header_def API_BASE_URL_def Let_def

text \<open>
  Three runs on the concrete server: a refresh that is granted (requests: the original, the
  refresh, the retry with the new token; answer 200), a refresh that is denied (the original
  401 comes back, no retry), and a store with no refresh token (one request only).
\<close>

theorem authFetch_refresh_and_retry_witness:
  "server (demo_platform 5000 unlimited refresh_granted) (requests session_world)
     \<lparr>url = patients_url, opts = withAuth session_world post_options\<rparr> = Response unauthorized \<and>
   status unauthorized = 401 \<and>
   present (getRefreshToken session_world) \<and>
   fst (refreshAccessToken (demo_platform 5000 unlimited refresh_granted)
          (session_world\<lparr>requests := requests session_world @
             [\<lparr>url = patients_url, opts = withAuth session_world post_options\<rparr>]\<rparr>)) \<and>
   fst (authFetch (demo_platform 5000 unlimited refresh_granted) patients_url post_options session_world)
     = Response \<lparr>status = 200, body = Some (JArr [])\<rparr> \<and>
   map url (requests (snd (authFetch (demo_platform 5000 unlimited refresh_granted)
                             patients_url post_options session_world)))
     = [patients_url, API_BASE_URL @ ''/auth/refresh'', patients_url] \<and>
   map authorization (requests (snd (authFetch (demo_platform 5000 unlimited refresh_granted)
                             patients_url post_options session_world)))
     = [Some (''Bearer '' @ token1), Some ''Bearer r1'', Some (''Bearer '' @ token2)] \<and>
   \<not> fst (refreshAccessToken (demo_platform 5000 unlimited refresh_denied)
          (session_world\<lparr>requests := requests session_world @
             [\<lparr>url = patients_url, opts = withAuth session_world post_options\<rparr>]\<rparr>)) \<and>
   fst (authFetch (demo_platform 5000 unlimited refresh_denied) patients_url post_options session_world)
     = Response unauthorized \<and>
   map url (requests (snd (authFetch (demo_platform 5000 unlimited refresh_denied)
                             patients_url post_options session_world)))
     = [patients_url, API_BASE_URL @ ''/auth/refresh'', API_BASE_URL @ ''/auth/logout''] \<and>
   \<not> present (getRefreshToken empty_world) \<and>
   authFetch (demo_platform 5000 unlimited refresh_granted) patients_url post_options empty_world
     = (Response unauthorized,
        empty_world\<lparr>requests := [\<lparr>url = patients_url, opts = post_options\<rparr>]\<rparr>)"
  using
    authFetch_refresh_and_retry
      [of "\<lparr>url = patients_url, opts = withAuth session_world post_options\<rparr>"
          patients_url session_world post_options
          "demo_platform 5000 unlimited refresh_granted"
          "fst (authFetch (demo_platform 5000 unlimited refresh_granted) patients_url post_options session_world)"
          "snd (authFetch (demo_platform 5000 unlimited refresh_granted) patients_url post_options session_world)"
          "fst (refreshAccessToken (demo_platform 5000 unlimited refresh_granted)
                 (session_world\<lparr>requests := requests session_world @
                    [\<lparr>url = patients_url, opts = withAuth session_world post_options\<rparr>]\<rparr>))"
          "snd (refreshAccessToken (demo_platform 5000 unlimited refresh_granted)
                 (session_world\<lparr>requests := requests session_world @
                    [\<lparr>url = patients_url, opts = withAuth session_world post_options\<rparr>]\<rparr>))"]
    authFetch_refresh_and_retry
      [of "\<lparr>url = patients_url, opts = withAuth session_world post_options\<rparr>"
          patients_url session_world post_options
          "demo_platform 5000 unlimited refresh_denied"
          "fst (authFetch (demo_platform 5000 unlimited refresh_denied) patients_url post_options session_world)"
          "snd (authFetch (demo_platform 5000 unlimited refresh_denied) patients_url post_options session_world)"
          "fst (refreshAccessToken (demo_platform 5000 unlimited refresh_denied)
                 (session_world\<lparr>requests := requests session_world @
                    [\<lparr>url = patients_url, opts = withAuth session_world post_options\<rparr>]\<rparr>))"
          "snd (refreshAccessToken (demo_platform 5000 unlimited refresh_denied)
                 (session_world\<lparr>requests := requests session_world @
                    [\<lparr>url = patients_url, opts = withAuth session_world post_options\<rparr>]\<rparr>))"]
    authFetch_refresh_and_retry
      [of "\<lparr>url = patients_url, opts = withAuth empty_world post_options\<rparr>"
          patients_url empty_world post_options
          "demo_platform 5000 unlimited refresh_granted"
          "fst (authFetch (demo_platform 5000 unlimited refresh_granted) patients_url post_options empty_world)"
          "snd (authFetch (demo_platform 5000 unlimited refresh_granted) patients_url post_options empty_world)"
          "fst (refreshAccessToken (demo_platform 5000 unlimited refresh_granted)
                 (empty_world\<lparr>requests := requests empty_world @
                    [\<lparr>url = patients_url, opts = withAuth empty_world post_options\<rparr>]\<rparr>))"
          "snd (refreshAccessToken (demo_platform 5000 unlimited refresh_granted)
                 (empty_world\<lparr>requests := requests empty_world @
                    [\<lparr>url = patients_url, opts = withAuth empty_world post_options\<rparr>]\<rparr>))"]
  by (simp add: code_defs demo_defs)

text \<open>
  Claim C10. With no access token stored, \<^verbatim>\<open>withAuth\<close> returns the caller's options
  unchanged. With a token stored, the result has the caller's other fields, the header
  \<^verbatim>\<open>Authorization\<close> set to \<^verbatim>\<open>Bearer\<close> and the token, and every other header as the
  caller gave it. \<^verbatim>\<open>authFetch\<close> sends \<^verbatim>\<open>withAuth\<close> of the caller's options on the first
  attempt and, after a successful refresh, \<^verbatim>\<open>withAuth\<close> of the same options over the
  refreshed store on the retry, so both attempts preserve what the caller supplied.
\<close>

theorem withAuth_frame:
  "(\<not> present (getAccessToken w) \<longrightarrow> withAuth w options = options) \<and>
   (\<forall>token. getAccessToken w = Some token \<and> token \<noteq> [] \<longrightarrow>
      other (withAuth w options) = other options \<and>
      header (withAuth w options) ''Authorization'' = Some (''Bearer '' @ token) \<and>
      (\<forall>k. k \<noteq> ''Authorization'' \<longrightarrow> header (withAuth w options) k = header options k)) \<and>
   (\<exists>rest. requests (snd (authFetch env u options w)) =
            requests w @ \<lparr>url = u, opts = withAuth w options\<rparr> # rest) \<and>
   (\<forall>resp w2.
      server env (requests w) \<lparr>url = u, opts = withAuth w options\<rparr> = Response resp \<and>
      status resp = 401 \<and> present (getRefreshToken w) \<and>
      refreshAccessToken env
        (w\<lparr>requests := requests w @ [\<lparr>url = u, opts = withAuth w options\<rparr>]\<rparr>) = (True, w2) \<longrightarrow>
      requests (snd (authFetch env u options w)) =
        requests w2 @ [\<lparr>url = u, opts = withAuth w2 options\<rparr>])"
proof (intro conjI allI impI)
  show "withAuth w options = options" if "\<not> present (getAccessToken w)"
    using that by (rule withAuth_absent)
next
  fix token assume "getAccessToken w = Some token \<and> token \<noteq> []"
  then have t: "getAccessToken w = Some token" "token \<noteq> []" by simp_all
  show "other (withAuth w options) = other options"
    by (rule withAuth_present(1) [OF t])
  show "header (withAuth w options) ''Authorization'' = Some (''Bearer '' @ token)"
    by (rule withAuth_present(2) [OF t])
  show "header (withAuth w options) k = header options k" if "k \<noteq> ''Authorization''" for k
    using that by (rule withAuth_present(3) [OF t])
next
  show "\<exists>rest. requests (snd (authFetch env u options w)) =
            requests w @ \<lparr>url = u, opts = withAuth w options\<rparr> # rest"
    by (rule authFetch_first_request)
next
  fix resp w2
  assume "server env (requests w) \<lparr>url = u, opts = withAuth w options\<rparr> = Response resp \<and>
      status resp = 401 \<and> present (getRefreshToken w) \<and>
      refreshAccessToken env
        (w\<lparr>requests := requests w @ [\<lparr>url = u, opts = withAuth w options\<rparr>]\<rparr>) = (True, w2)"
  then have "authFetch env u options w = fetch env w2 \<lparr>url = u, opts = withAuth w2 options\<rparr>"
    using authFetch_retry_request [of env w u options resp w2] by simp
  then show "requests (snd (authFetch env u options w)) =
        requests w2 @ [\<lparr>url = u, opts = withAuth w2 options\<rparr>]"
    by (simp add: fetch_def)
qed

text \<open>
  A POST with a \<^verbatim>\<open>Content-Type\<close> header: unchanged over the empty store; over a
  session the method, body and \<^verbatim>\<open>Content-Type\<close> are kept on the first attempt and on the
  retry.
\<close>

theorem withAuth_frame_witness:
  "\<not> present (getAccessToken empty_world) \<and>
   withAuth empty_world post_options = post_options \<and>
   getAccessToken session_world = Some token1 \<and> token1 \<noteq> [] \<and>
   other (withAuth session_world post_options) = other post_options \<and>
   header (withAuth session_world post_options) ''Authorization'' = Some (''Bearer '' @ token1) \<and>
   ''Content-Type'' \<noteq> ''Authorization'' \<and>
   header (withAuth session_world post_options) ''Content-Type'' = Some ''application/json'' \<and>
   server (demo_platform 5000 unlimited refresh_granted) (requests session_world)
     \<lparr>url = patients_url, opts = withAuth session_world post_options\<rparr> = Response unauthorized \<and>
   status unauthorized = 401 \<and> present (getRefreshToken session_world) \<and>
   fst (refreshAccessToken (demo_platform 5000 unlimited refresh_granted)
          (session_world\<lparr>requests := requests session_world @
             [\<lparr>url = patients_url, opts = withAuth session_world post_options\<rparr>]\<rparr>)) \<and>
   map (\<lambda>r. (header (opts r) ''Content-Type'', other (opts r) ''method''))
     (requests (snd (authFetch (demo_platform 5000 unlimited refresh_granted)
                       patients_url post_options session_world)))
     = [(Some ''application/json'', Some (JStr ''POST'')), (None, Some (JStr ''POST'')),
        (Some ''application/json'', Some (JStr ''POST''))]"
  using
    withAuth_frame [of empty_world post_options "demo_platform 5000 unlimited refresh_granted"
                       patients_url]
    withAuth_frame [of session_world post_options "demo_platform 5000 unlimited refresh_granted"
                       patients_url]
  by (simp add: code_defs demo_defs)

section \<open>Refreshing the access token\<close>

lemma quiesce_nil: "pending w = [] \<Longrightarrow> quiesce env w = w"
  by (simp add: quiesce.simps)

lemma quiesce_cons:
  "pending w = t # ts \<Longrightarrow> quiesce env w = quiesce env (run_task env t (w\<lparr>pending := ts\<rparr>))"
  by (subst quiesce.simps) simp







section \<open>The validity check\<close>

lemma refreshAccessToken_unawaited_cases:
  assumes "getRefreshToken w = Some t" and "t \<noteq> []"
  shows "refreshAccessToken_unawaited env w =
           w\<lparr>requests := requests w @ [refresh_request t],
             pending := pending w @ [RefreshCont (server env (requests w) (refresh_request t))]\<rparr>"
  using assms by (simp add: refreshAccessToken_unawaited_def fetch_def)

text \<open>
  A stored token that cannot be decoded (\<^verbatim>\<open>atob\<close> or \<^verbatim>\<open>JSON.parse\<close> throws, the
  payload is \<^verbatim>\<open>null\<close>, or \<^verbatim>\<open>exp\<close> cannot be made a number) is reported invalid, and
  the forced logout is started: its request is issued and its continuation, which clears
  the store, is pending.
\<close>

lemma isAuthenticated_undecodable:
  assumes "getAccessToken w = Some token" and "token \<noteq> []"
    and "expiry_time env token = None"
  shows "isAuthenticated env w =
           (False, w\<lparr>requests := requests w @ [logout_request token],
                      pending := pending w @ [LogoutCont]\<rparr>)"
  using assms by (simp add: isAuthenticated_def logout_unawaited_cases)

text \<open>
  A stored token whose payload is an object without \<^verbatim>\<open>exp\<close> is not caught:
  \<^verbatim>\<open>payload.exp * 1000\<close> is \<^verbatim>\<open>NaN\<close>, \<^verbatim>\<open>Date.now() >= NaN\<close> is false, and the
  function returns \<^verbatim>\<open>true\<close> without touching anything.
\<close>

lemma isAuthenticated_no_exp:
  assumes "getAccessToken w = Some token" and "token \<noteq> []"
    and "atob env (payload_segment token) = Some s"
    and "JSON_parse env s = Some (JObj kvs)"
    and "map_of kvs ''exp'' = None"
  shows "isAuthenticated env w = (True, w)"
  using assms by (simp add: isAuthenticated_def expiry_time_def payload_exp_def)

text \<open>
  Claim C2. A malformed stored token, one whose middle segment does not decode or whose
  payload has no \<^verbatim>\<open>exp\<close>, is to be reported invalid and to force a logout. The code
  does so for a token that does not decode (\<open>isAuthenticated_undecodable\<close>), but not for
  the token \<^verbatim>\<open>h.e30.s\<close>, whose payload is \<^verbatim>\<open>{}\<close>: with that token stored,
  \<^verbatim>\<open>isAuthenticated\<close> returns \<^verbatim>\<open>true\<close> and leaves the session in place.
\<close>

theorem isAuthenticated_missing_exp_valid:
  "isAuthenticated (demo_platform 5000 unlimited refresh_granted) no_exp_world
     = (True, no_exp_world)"
  by (rule isAuthenticated_no_exp [where token = token_no_exp and s = "''{}''" and kvs = "[]"])
     (simp_all add: getAccessToken_def no_exp_world_def token_no_exp_def payload_segment_def
                    demo_simps demo_atob_def demo_parse_def exp1_json_def exp2_json_def)

text \<open>
  Claim C5 says that the validity check has no side effects. Over a session whose access
  token has expired, \<^verbatim>\<open>isAuthenticated\<close> issues a refresh request, and when the
  continuation of that refresh has run the stored access token is another one.
\<close>

theorem isAuthenticated_side_effects_counterexample:
  "requests session_world = [] \<and>
   map url (requests (snd (isAuthenticated (demo_platform 5000 unlimited refresh_granted)
                             session_world))) = [API_BASE_URL @ ''/auth/refresh''] \<and>
   store session_world ''access_token'' = Some token1 \<and>
   store (quiesce (demo_platform 5000 unlimited refresh_granted)
            (snd (isAuthenticated (demo_platform 5000 unlimited refresh_granted) session_world)))
     ''access_token'' = Some token2"
  by (simp add: isAuthenticated_def expiry_time_def payload_exp_def payload_segment_def
                refreshAccessToken_unawaited_def quiesce.simps exp1_json_def exp2_json_def
                code_defs demo_defs)

lemma expiry_time_cong:
  assumes "atob env' = atob env" and "JSON_parse env' = JSON_parse env"
    and "ToNumber_other env' = ToNumber_other env"
  shows "expiry_time env' tok = expiry_time env tok"
proof -
  have "to_number env' v = to_number env v" for v
    using assms(3) by (cases v) simp_all
  with assms(1,2) show ?thesis
    by (simp add: expiry_time_def payload_exp_def split: option.splits)
qed

lemma isAuthenticated_verdict:
  "fst (isAuthenticated env w) \<longleftrightarrow>
     (\<exists>tok e. getAccessToken w = Some tok \<and> tok \<noteq> [] \<and> expiry_time env tok = Some e \<and>
              \<not> js_ge (Date_now env) e)"
proof (cases "getAccessToken w")
  case None
  then show ?thesis by (simp add: isAuthenticated_def)
next
  case (Some tok)
  show ?thesis
  proof (cases "expiry_time env tok")
    case None
    with Some show ?thesis by (simp add: isAuthenticated_def)
  next
    case (Some e)
    with \<open>getAccessToken w = Some tok\<close> show ?thesis by (simp add: isAuthenticated_def)
  qed
qed

text \<open>
  Claim C5, amended. \<^verbatim>\<open>isAuthenticated\<close> returns \<^verbatim>\<open>true\<close> exactly when a non-empty
  access token is stored, its expiry time can be computed (\<open>expiry_time\<close>: \<^verbatim>\<open>atob\<close>,
  \<^verbatim>\<open>JSON.parse\<close>, \<^verbatim>\<open>payload.exp * 1000\<close>) and \<^verbatim>\<open>Date.now() >= expiryTime\<close> is
  false. So the verdict depends on the stored access token, the clock and the decoders
  only: two calls that agree on these return the same verdict, whatever else the store,
  the request log, the pending work and the platform hold. The call leaves the store, the
  network and the pending work untouched when no access token is stored or when it reports
  the token valid. When it reports a stored token invalid it issues exactly one request and
  leaves its continuation pending, the store itself being as before when the call returns:
  the request is a refresh with the stored refresh token when the expiry time of the access
  token can be computed (the token is then expired) and a refresh token is stored, and a
  logout with the stored access token in every other case, that is when the token cannot
  be decoded or no refresh token is stored.
\<close>

theorem isAuthenticated_effects:
  "(fst (isAuthenticated env w) \<longleftrightarrow>
      (\<exists>tok e. getAccessToken w = Some tok \<and> tok \<noteq> [] \<and> expiry_time env tok = Some e \<and>
               \<not> js_ge (Date_now env) e)) \<and>
   (\<forall>env' v. getAccessToken v = getAccessToken w \<and> Date_now env' = Date_now env \<and>
       atob env' = atob env \<and> JSON_parse env' = JSON_parse env \<and>
       ToNumber_other env' = ToNumber_other env \<longrightarrow>
       fst (isAuthenticated env' v) = fst (isAuthenticated env w)) \<and>
   (\<not> present (getAccessToken w) \<or> fst (isAuthenticated env w) \<longrightarrow>
      snd (isAuthenticated env w) = w) \<and>
   (\<forall>tok. getAccessToken w = Some tok \<and> tok \<noteq> [] \<and> \<not> fst (isAuthenticated env w) \<longrightarrow>
      (if expiry_time env tok \<noteq> None \<and> present (getRefreshToken w)
       then \<exists>t. getRefreshToken w = Some t \<and>
              snd (isAuthenticated env w) =
                w\<lparr>requests := requests w @ [refresh_request t],
                  pending := pending w @
                    [RefreshCont (server env (requests w) (refresh_request t))]\<rparr>
       else snd (isAuthenticated env w) =
              w\<lparr>requests := requests w @ [logout_request tok],
                pending := pending w @ [LogoutCont]\<rparr>))"
proof (intro conjI impI allI)
  show "fst (isAuthenticated env w) \<longleftrightarrow>
      (\<exists>tok e. getAccessToken w = Some tok \<and> tok \<noteq> [] \<and> expiry_time env tok = Some e \<and>
               \<not> js_ge (Date_now env) e)"
    by (rule isAuthenticated_verdict)
next
  fix env' :: platform and v :: world
  assume a: "getAccessToken v = getAccessToken w \<and> Date_now env' = Date_now env \<and>
       atob env' = atob env \<and> JSON_parse env' = JSON_parse env \<and>
       ToNumber_other env' = ToNumber_other env"
  then have "expiry_time env' tok = expiry_time env tok" for tok
    by (intro expiry_time_cong) simp_all
  with a show "fst (isAuthenticated env' v) = fst (isAuthenticated env w)"
    by (simp add: isAuthenticated_verdict)
next
  assume "\<not> present (getAccessToken w) \<or> fst (isAuthenticated env w)"
  then show "snd (isAuthenticated env w) = w"
    by (cases "getAccessToken w")
       (auto simp: isAuthenticated_def split: option.splits if_splits)
next
  fix tok
  assume a: "getAccessToken w = Some tok \<and> tok \<noteq> [] \<and> \<not> fst (isAuthenticated env w)"
  then have tok: "getAccessToken w = Some tok" "tok \<noteq> []"
    and inv: "\<not> fst (isAuthenticated env w)" by simp_all
  show "if expiry_time env tok \<noteq> None \<and> present (getRefreshToken w)
       then \<exists>t. getRefreshToken w = Some t \<and>
              snd (isAuthenticated env w) =
                w\<lparr>requests := requests w @ [refresh_request t],
                  pending := pending w @
                    [RefreshCont (server env (requests w) (refresh_request t))]\<rparr>
       else snd (isAuthenticated env w) =
              w\<lparr>requests := requests w @ [logout_request tok],
                pending := pending w @ [LogoutCont]\<rparr>"
  proof (cases "expiry_time env tok")
    case None
    from isAuthenticated_undecodable [OF tok None] None show ?thesis by simp
  next
    case (Some e)
    with inv tok have expired: "js_ge (Date_now env) e"
      by (auto simp: isAuthenticated_def split: if_splits)
    show ?thesis
    proof (cases "present (getRefreshToken w)")
      case True
      then obtain t where t: "getRefreshToken w = Some t" "t \<noteq> []"
        by (cases "getRefreshToken w") auto
      with tok Some expired True show ?thesis
        by (simp add: isAuthenticated_def refreshAccessToken_unawaited_cases [OF t])
    next
      case False
      with tok Some expired show ?thesis
        by (simp add: isAuthenticated_def logout_unawaited_cases)
    qed
  qed
qed

lemma garbage_undecodable:
  "expiry_time (demo_platform now q ra) ''garbage'' = None"
  by (simp add: expiry_time_def payload_exp_def payload_segment_def demo_simps demo_atob_def)

lemma token1_expiry:
  "expiry_time (demo_platform now q ra) token1 = Some (Fin 1000)"
  by (simp add: expiry_time_def payload_exp_def payload_segment_def demo_simps demo_atob_def
                demo_parse_def token1_def)

text \<open>
  No token: nothing happens. A token that expires at millisecond 1000, checked at
  millisecond 999: valid, nothing happens. The same token at millisecond 5000 with a refresh
  token stored: one refresh request and its continuation. The same token at millisecond 5000
  with nothing else stored: one logout request and its continuation. A stored string that
  is no token, with a refresh token stored: one logout request and its continuation, and no
  refresh. And the valid verdict is the same over another request log and a platform with
  another quota and another server.
\<close>

theorem isAuthenticated_effects_witness:
  "\<not> present (getAccessToken empty_world) \<and>
   isAuthenticated (demo_platform 5000 unlimited refresh_granted) empty_world
     = (False, empty_world) \<and>
   getAccessToken session_world = Some token1 \<and> token1 \<noteq> [] \<and>
   expiry_time (demo_platform 999 unlimited refresh_granted) token1 = Some (Fin 1000) \<and>
   isAuthenticated (demo_platform 999 unlimited refresh_granted) session_world
     = (True, session_world) \<and>
   present (getRefreshToken session_world) \<and>
   isAuthenticated (demo_platform 5000 unlimited refresh_granted) session_world
     = (False, session_world\<lparr>requests := [refresh_request ''r1''],
                             pending := [RefreshCont refresh_granted]\<rparr>) \<and>
   getAccessToken access_only_world = Some token1 \<and>
   \<not> present (getRefreshToken access_only_world) \<and>
   isAuthenticated (demo_platform 5000 unlimited refresh_granted) access_only_world
     = (False, access_only_world\<lparr>requests := [logout_request token1],
                                 pending := [LogoutCont]\<rparr>) \<and>
   getAccessToken garbage_world = Some ''garbage'' \<and>
   present (getRefreshToken garbage_world) \<and>
   expiry_time (demo_platform 999 unlimited refresh_granted) ''garbage'' = None \<and>
   isAuthenticated (demo_platform 999 unlimited refresh_granted) garbage_world
     = (False, garbage_world\<lparr>requests := [logout_request ''garbage''],
                             pending := [LogoutCont]\<rparr>) \<and>
   getAccessToken (session_world\<lparr>requests := [logout_request token1]\<rparr>)
     = getAccessToken session_world \<and>
   fst (isAuthenticated (demo_platform 999 full_after_access_token refresh_denied)
          (session_world\<lparr>requests := [logout_request token1]\<rparr>))"
proof -
  have toks: "getAccessToken session_world = Some token1" "token1 \<noteq> []"
    "present (getRefreshToken session_world)"
    "getAccessToken access_only_world = Some token1"
    "\<not> present (getRefreshToken access_only_world)"
    "getAccessToken garbage_world = Some ''garbage''"
    "present (getRefreshToken garbage_world)"
    "\<not> present (getAccessToken empty_world)"
    "getRefreshToken session_world = Some ''r1''"
    by (simp_all add: getAccessToken_def getRefreshToken_def session_world_def session_store_def
                      access_only_world_def garbage_world_def empty_world_def token1_def)
  have srv: "server (demo_platform 5000 unlimited refresh_granted) (requests session_world)
               (refresh_request ''r1'') = refresh_granted"
    by (simp add: demo_simps demo_server_def refresh_request_def)
  note e0 = isAuthenticated_effects [of "demo_platform 5000 unlimited refresh_granted" empty_world]
  note e1 = isAuthenticated_effects [of "demo_platform 999 unlimited refresh_granted" session_world]
  note e2 = isAuthenticated_effects [of "demo_platform 5000 unlimited refresh_granted" session_world]
  note e3 = isAuthenticated_effects [of "demo_platform 5000 unlimited refresh_granted"
                                        access_only_world]
  note e4 = isAuthenticated_effects [of "demo_platform 999 unlimited refresh_granted" garbage_world]
  have r0: "isAuthenticated (demo_platform 5000 unlimited refresh_granted) empty_world
     = (False, empty_world)"
    using e0 toks by (auto simp: prod_eq_iff)
  have v1: "fst (isAuthenticated (demo_platform 999 unlimited refresh_granted) session_world)"
    using e1 toks by (simp add: token1_expiry demo_simps)
  with e1 have r1: "isAuthenticated (demo_platform 999 unlimited refresh_granted) session_world
     = (True, session_world)"
    by (simp add: prod_eq_iff)
  have v2: "\<not> fst (isAuthenticated (demo_platform 5000 unlimited refresh_granted) session_world)"
    using e2 toks by (simp add: token1_expiry demo_simps)
  with e2 toks srv have r2: "isAuthenticated (demo_platform 5000 unlimited refresh_granted)
     session_world = (False, session_world\<lparr>requests := [refresh_request ''r1''],
                             pending := [RefreshCont refresh_granted]\<rparr>)"
    by (simp add: prod_eq_iff token1_expiry session_world_def)
  have v3: "\<not> fst (isAuthenticated (demo_platform 5000 unlimited refresh_granted)
                    access_only_world)"
    using e3 toks by (simp add: token1_expiry demo_simps)
  with e3 toks have r3: "isAuthenticated (demo_platform 5000 unlimited refresh_granted)
     access_only_world = (False, access_only_world\<lparr>requests := [logout_request token1],
                                 pending := [LogoutCont]\<rparr>)"
    by (simp add: prod_eq_iff token1_expiry access_only_world_def)
  have v4: "\<not> fst (isAuthenticated (demo_platform 999 unlimited refresh_granted) garbage_world)"
    using e4 toks by (simp add: garbage_undecodable)
  with e4 toks have r4: "isAuthenticated (demo_platform 999 unlimited refresh_granted)
     garbage_world = (False, garbage_world\<lparr>requests := [logout_request ''garbage''],
                             pending := [LogoutCont]\<rparr>)"
    by (simp add: prod_eq_iff garbage_undecodable garbage_world_def)
  have same: "getAccessToken (session_world\<lparr>requests := [logout_request token1]\<rparr>)
     = getAccessToken session_world"
    by (simp add: getAccessToken_def)
  have dep: "fst (isAuthenticated (demo_platform 999 full_after_access_token refresh_denied)
          (session_world\<lparr>requests := [logout_request token1]\<rparr>))"
    using e1 v1 same by (simp add: demo_simps)
  from toks r0 r1 r2 r3 r4 same dep show ?thesis
    by (simp add: token1_expiry garbage_undecodable)
qed

section \<open>Tokens in the base64url alphabet\<close>

text \<open>
  On the segments of the tokens used above, \<^verbatim>\<open>atob\<close> as the browser has it returns what
  the table of the concrete platform returns.
\<close>

lemma atob_model_table:
  "atob_model ''eyJleHAiOjF9'' = demo_atob ''eyJleHAiOjF9''"
  "atob_model ''eyJleHAiOjJ9'' = demo_atob ''eyJleHAiOjJ9''"
  "atob_model ''e30'' = demo_atob ''e30''"
  "atob_model ''undefined'' = demo_atob ''undefined''"
  by code_simp+

lemma browser_simps:
  "atob (browser_platform now) = atob_model"
  "Date_now (browser_platform now) = now"
  "JSON_parse (browser_platform now) sub_json
     = Some (JObj [(''exp'', JNum 9999999999), (''sub'', JStr ''a?'')])"
  by (simp_all add: browser_platform_def demo_platform_def)

lemma url_segment_rejected: "atob_model url_segment = None"
  unfolding url_segment_def by code_simp

lemma url_segment_decodes: "base64url_decode url_segment = Some sub_json"
  unfolding url_segment_def sub_json_def by code_simp

lemma url_token_segment: "payload_segment url_token = url_segment"
  by (simp add: payload_segment_def url_token_def url_segment_def)

text \<open>
  Claim C8. A well-formed token whose \<^verbatim>\<open>exp\<close> lies in the future is to be reported
  valid, the middle segment being base64url-encoded JSON. The code decodes the segment with
  \<^verbatim>\<open>atob\<close>, which knows the alphabet of base64 and not that of base64url. The middle
  segment of the token \<^verbatim>\<open>h.eyJleHAiOjk5OTk5OTk5OTksInN1YiI6ImE_In0.s\<close> is the base64url
  encoding of \<^verbatim>\<open>{"exp":9999999999,"sub":"a?"}\<close>, and second 9999999999 lies in the future
  of millisecond 1700000000000. The segment contains the character \<^verbatim>\<open>_\<close>: \<^verbatim>\<open>atob\<close>
  throws, the \<^verbatim>\<open>catch\<close> block of \<^verbatim>\<open>isAuthenticated\<close> starts the forced logout, and the
  token is reported invalid.
\<close>

theorem isAuthenticated_base64url_invalid:
  "payload_segment url_token = url_segment \<and>
   base64url_decode url_segment = Some sub_json \<and>
   JSON_parse (browser_platform 1700000000000) sub_json
     = Some (JObj [(''exp'', JNum 9999999999), (''sub'', JStr ''a?'')]) \<and>
   Date_now (browser_platform 1700000000000) < 9999999999 * 1000 \<and>
   atob (browser_platform 1700000000000) url_segment = None \<and>
   isAuthenticated (browser_platform 1700000000000) url_world
     = (False, url_world\<lparr>requests := [logout_request url_token], pending := [LogoutCont]\<rparr>)"
proof -
  have tok: "getAccessToken url_world = Some url_token" "url_token \<noteq> []"
    by (simp_all add: getAccessToken_def url_world_def url_token_def)
  have "expiry_time (browser_platform 1700000000000) url_token = None"
    by (simp add: expiry_time_def payload_exp_def url_token_segment browser_simps
                  url_segment_rejected)
  from isAuthenticated_undecodable [OF tok this]
  have "isAuthenticated (browser_platform 1700000000000) url_world
     = (False, url_world\<lparr>requests := [logout_request url_token], pending := [LogoutCont]\<rparr>)"
    by (simp add: url_world_def)
  then show ?thesis
    by (simp add: url_token_segment url_segment_decodes browser_simps url_segment_rejected)
qed

section \<open>Validation before registration\<close>




text \<open>The body of the registration request for the form that passes every check.\<close>

lemma register_request_good_form:
  \<open>opts (register_request (demo_platform now q ra) (registration_data good_form)) =
     json_post ''{"first_name":"Alice","last_name":"Smith","username":"alice","email":"alice@example.org","password":"Secret#123"}''\<close>
  by (simp add: register_request_def registration_data_def good_form_def weak_form_def
                demo_simps demo_stringify_def demo_user_def)




section \<open>Login\<close>

lemma network_failure_shape:
  "get_prop network_failure ''success'' = Some (JBool False)"
  "get_prop network_failure ''message'' = Some (JStr ''Network error. Please try again.'')"
  by (simp_all add: network_failure_def)

lemma server_failure_shape:
  assumes "d \<noteq> []"
  shows "get_prop (server_failure data d) ''success'' = Some (JBool False)"
    and "\<exists>m. get_prop (server_failure data d) ''message'' = Some m \<and> truthy m"
  using assms
  by (cases "get_prop data ''error''"; simp add: server_failure_def network_failure_def)+

lemma get_prop_defined:
  "get_prop data k = Some a \<Longrightarrow> \<exists>v. get_prop data k' = Some v"
  by (cases data) (simp_all split: option.splits)

lemma user_of_defined:
  assumes "get_prop data k = Some a"
  shows "\<exists>user. user_of data = Some user"
proof -
  from get_prop_defined [OF assms] obtain i u f l r where
    "get_prop data ''user_id'' = Some i" "get_prop data ''username'' = Some u"
    "get_prop data ''first_name'' = Some f" "get_prop data ''last_name'' = Some l"
    "get_prop data ''role'' = Some r"
    by metis
  then show ?thesis by (simp add: user_of_def)
qed

lemma login_store_null:
  "get_prop data ''access_token'' = None \<Longrightarrow> login_store env data w = (network_failure, w)"
  by (simp add: login_store_def)

lemma login_store_success:
  assumes "get_prop data ''access_token'' = Some a" and "to_string env a = Some a'"
    and "get_prop data ''refresh_token'' = Some rt" and "to_string env rt = Some r'"
    and "user_of data = Some user"
    and "quota_ok env (store w) ''access_token'' a'"
    and "quota_ok env ((store w)(''access_token'' \<mapsto> a')) ''refresh_token'' r'"
    and "quota_ok env ((store w)(''access_token'' \<mapsto> a', ''refresh_token'' \<mapsto> r')) ''user''
           (JSON_stringify env user)"
  shows "login_store env data w =
           (JObj [(''success'', JBool True), (''user'', user)],
            w\<lparr>store := (store w)(''access_token'' \<mapsto> a', ''refresh_token'' \<mapsto> r',
                                   ''user'' \<mapsto> JSON_stringify env user)\<rparr>)"
  using assms by (simp add: login_store_def setItem_def)

lemma login_unfold:
  "login env u p w =
     (case server env (requests w) (login_request env u p) of
        NetworkError \<Rightarrow> (network_failure, w\<lparr>requests := requests w @ [login_request env u p]\<rparr>)
      | Response resp \<Rightarrow>
          (case body resp of
             None \<Rightarrow> (network_failure, w\<lparr>requests := requests w @ [login_request env u p]\<rparr>)
           | Some data \<Rightarrow>
               if \<not> ok resp
               then (server_failure data ''Login failed'',
                     w\<lparr>requests := requests w @ [login_request env u p]\<rparr>)
               else login_store env data (w\<lparr>requests := requests w @ [login_request env u p]\<rparr>)))"
  by (simp add: login_def fetch_def split: fetch_result.splits option.splits)

lemma login_store_rest:
  "requests (snd (login_store env data w)) = requests w"
  "pending (snd (login_store env data w)) = pending w"
  by (simp_all add: login_store_def split: option.splits)

text \<open>
  Claim C7 says that a successful login sets all three keys or none. The three writes are
  consecutive statements and the \<^verbatim>\<open>catch\<close> block undoes nothing: when the server
  answers 200 with a complete body and the store accepts the access token but refuses the
  next write (\<^verbatim>\<open>setItem\<close> throws \<^verbatim>\<open>QuotaExceededError\<close>), \<^verbatim>\<open>login\<close> returns the
  network failure and leaves the access token in the store, without refresh token or user.
\<close>

theorem login_partial_write_counterexample:
  "server (demo_platform 0 full_after_access_token refresh_granted) (requests empty_world)
     (login_request (demo_platform 0 full_after_access_token refresh_granted)
        ''alice'' ''Secret#123'')
     = Response \<lparr>status = 200, body = Some demo_login_body\<rparr> \<and>
   fst (login (demo_platform 0 full_after_access_token refresh_granted)
          ''alice'' ''Secret#123'' empty_world) = network_failure \<and>
   store (snd (login (demo_platform 0 full_after_access_token refresh_granted)
          ''alice'' ''Secret#123'' empty_world)) ''access_token'' = Some token1 \<and>
   store (snd (login (demo_platform 0 full_after_access_token refresh_granted)
          ''alice'' ''Secret#123'' empty_world)) ''refresh_token'' = None \<and>
   store (snd (login (demo_platform 0 full_after_access_token refresh_granted)
          ''alice'' ''Secret#123'' empty_world)) ''user'' = None"
  by (simp add: login_unfold login_store_def login_request_def setItem_def ok_def
                full_after_access_token_def API_BASE_URL_def demo_simps demo_server_def
                demo_login_body_def empty_world_def)

text \<open>
  Claim C7, amended. \<^verbatim>\<open>login\<close> issues one request. On a rejected fetch, a response that
  is not ok or a body that is not JSON it returns \<^verbatim>\<open>{success: false, message}\<close> and the
  store is unchanged. On an ok response whose body carries the tokens and the user, and
  when the store accepts the three writes, it returns \<^verbatim>\<open>{success: true, user}\<close> and the
  store is the old one with the three keys written from the response. When no write is ever
  refused and every value converts to a string, the outcome is one of these two: a failure
  with the store unchanged, or a success with all three keys present. (A refused write or a
  failed conversion after the first write leaves the earlier writes in place.)
\<close>

theorem login_outcomes:
  assumes call: "login env u p w = (result, w')"
  shows
    "(server env (requests w) (login_request env u p) = NetworkError \<or>
      (\<exists>resp. server env (requests w) (login_request env u p) = Response resp \<and>
              (\<not> ok resp \<or> body resp = None)) \<longrightarrow>
        store w' = store w \<and> get_prop result ''success'' = Some (JBool False) \<and>
        (\<exists>m. get_prop result ''message'' = Some m \<and> truthy m)) \<and>
     (\<forall>resp data a a' rt r' user.
        server env (requests w) (login_request env u p) = Response resp \<and> ok resp \<and>
        body resp = Some data \<and>
        get_prop data ''access_token'' = Some a \<and> to_string env a = Some a' \<and>
        get_prop data ''refresh_token'' = Some rt \<and> to_string env rt = Some r' \<and>
        user_of data = Some user \<and>
        quota_ok env (store w) ''access_token'' a' \<and>
        quota_ok env ((store w)(''access_token'' \<mapsto> a')) ''refresh_token'' r' \<and>
        quota_ok env ((store w)(''access_token'' \<mapsto> a', ''refresh_token'' \<mapsto> r')) ''user''
          (JSON_stringify env user) \<longrightarrow>
        result = JObj [(''success'', JBool True), (''user'', user)] \<and>
        store w' = (store w)(''access_token'' \<mapsto> a', ''refresh_token'' \<mapsto> r',
                             ''user'' \<mapsto> JSON_stringify env user)) \<and>
     ((\<forall>st k v. quota_ok env st k v) \<and> (\<forall>v. \<exists>s. to_string env v = Some s) \<longrightarrow>
        (get_prop result ''success'' = Some (JBool False) \<and> store w' = store w) \<or>
        (get_prop result ''success'' = Some (JBool True) \<and>
         has_key (store w') ''access_token'' \<and> has_key (store w') ''refresh_token'' \<and>
         has_key (store w') ''user'')) \<and>
     requests w' = requests w @ [login_request env u p] \<and> pending w' = pending w"
proof -
  let ?req = "login_request env u p"
  let ?r = "server env (requests w) ?req"
  let ?w1 = "w\<lparr>requests := requests w @ [?req]\<rparr>"
  note unf = login_unfold [of env u p w, unfolded call]
  have failure: "store w' = store w \<and> get_prop result ''success'' = Some (JBool False) \<and>
        (\<exists>m. get_prop result ''message'' = Some m \<and> truthy m)"
    if "?r = NetworkError \<or> (\<exists>resp. ?r = Response resp \<and> (\<not> ok resp \<or> body resp = None))"
  proof -
    from that unf consider "(result, w') = (network_failure, ?w1)"
      | data where "(result, w') = (server_failure data ''Login failed'', ?w1)"
      by (auto split: option.splits)
    then show ?thesis
    proof cases
      case 1
      then show ?thesis by (simp add: network_failure_shape)
    next
      case 2
      then have "result = server_failure data ''Login failed''" "w' = ?w1" by simp_all
      then show ?thesis
        using server_failure_shape [of "''Login failed''" data] by simp
    qed
  qed
  have success: "result = JObj [(''success'', JBool True), (''user'', user)] \<and>
        store w' = (store w)(''access_token'' \<mapsto> a', ''refresh_token'' \<mapsto> r',
                             ''user'' \<mapsto> JSON_stringify env user)"
    if "?r = Response resp \<and> ok resp \<and> body resp = Some data \<and>
        get_prop data ''access_token'' = Some a \<and> to_string env a = Some a' \<and>
        get_prop data ''refresh_token'' = Some rt \<and> to_string env rt = Some r' \<and>
        user_of data = Some user \<and>
        quota_ok env (store w) ''access_token'' a' \<and>
        quota_ok env ((store w)(''access_token'' \<mapsto> a')) ''refresh_token'' r' \<and>
        quota_ok env ((store w)(''access_token'' \<mapsto> a', ''refresh_token'' \<mapsto> r')) ''user''
          (JSON_stringify env user)"
    for resp data a a' rt r' user
  proof -
    from that have "(result, w') = login_store env data ?w1" using unf by simp
    moreover from that have "login_store env data ?w1 =
           (JObj [(''success'', JBool True), (''user'', user)],
            ?w1\<lparr>store := (store ?w1)(''access_token'' \<mapsto> a', ''refresh_token'' \<mapsto> r',
                                   ''user'' \<mapsto> JSON_stringify env user)\<rparr>)"
      using login_store_success [where data = data and a = a and a' = a' and rt = rt
                                   and r' = r' and user = user and env = env and w = ?w1]
      by simp
    ultimately show ?thesis by simp
  qed
  have all_or_none: "(get_prop result ''success'' = Some (JBool False) \<and> store w' = store w) \<or>
        (get_prop result ''success'' = Some (JBool True) \<and>
         has_key (store w') ''access_token'' \<and> has_key (store w') ''refresh_token'' \<and>
         has_key (store w') ''user'')"
    if prov: "(\<forall>st k v. quota_ok env st k v) \<and> (\<forall>v. \<exists>s. to_string env v = Some s)"
  proof (cases "?r = NetworkError \<or> (\<exists>resp. ?r = Response resp \<and> (\<not> ok resp \<or> body resp = None))")
    case True
    from failure [OF True] show ?thesis by simp
  next
    case False
    then obtain resp data where r: "?r = Response resp" "ok resp" "body resp = Some data"
      by (cases ?r) auto
    show ?thesis
    proof (cases "get_prop data ''access_token''")
      case None
      with r unf have "(result, w') = (network_failure, ?w1)"
        by (simp add: login_store_null)
      then show ?thesis by (simp add: network_failure_shape)
    next
      case (Some a)
      from get_prop_defined [OF Some] obtain rt where rt: "get_prop data ''refresh_token'' = Some rt"
        by blast
      from user_of_defined [OF Some] obtain user where user: "user_of data = Some user" by blast
      from prov obtain a' r' where s: "to_string env a = Some a'" "to_string env rt = Some r'"
        by blast
      from success [of resp data a a' rt r' user] r Some rt user s prov
      have "result = JObj [(''success'', JBool True), (''user'', user)]"
        "store w' = (store w)(''access_token'' \<mapsto> a', ''refresh_token'' \<mapsto> r',
                             ''user'' \<mapsto> JSON_stringify env user)"
        by simp_all
      then show ?thesis by (simp add: has_key_def)
    qed
  qed
  have rest: "requests w' = requests w @ [?req] \<and> pending w' = pending w"
  proof -
    have "requests (snd (login env u p w)) = requests w @ [?req]"
      "pending (snd (login env u p w)) = pending w"
      by (simp_all add: login_unfold login_store_rest split: fetch_result.splits option.splits)
    then show ?thesis by (simp add: call)
  qed
  from failure success all_or_none rest show ?thesis by blast
qed

lemma demo_to_string_total: "\<exists>s. to_string (demo_platform now q ra) v = Some s"
  by (cases v) (simp_all add: demo_simps)

text \<open>
  A login the server accepts fills the empty store with the session; with no network, and
  with a server that answers 401, login over an existing session fails with a message and
  the session is untouched.
\<close>

theorem login_outcomes_witness:
  "server (demo_platform 0 unlimited refresh_granted) (requests empty_world)
     (login_request (demo_platform 0 unlimited refresh_granted) ''alice'' ''Secret#123'')
     = Response \<lparr>status = 200, body = Some demo_login_body\<rparr> \<and>
   ok \<lparr>status = 200, body = Some demo_login_body\<rparr> \<and>
   (\<forall>st k v. quota_ok (demo_platform 0 unlimited refresh_granted) st k v) \<and>
   (\<forall>v. \<exists>s. to_string (demo_platform 0 unlimited refresh_granted) v = Some s) \<and>
   user_of demo_login_body = Some demo_user \<and>
   fst (login (demo_platform 0 unlimited refresh_granted) ''alice'' ''Secret#123'' empty_world)
     = JObj [(''success'', JBool True), (''user'', demo_user)] \<and>
   store (snd (login (demo_platform 0 unlimited refresh_granted) ''alice'' ''Secret#123''
                 empty_world)) = session_store \<and>
   server offline_platform (requests session_world)
     (login_request offline_platform ''alice'' ''Secret#123'') = NetworkError \<and>
   login offline_platform ''alice'' ''Secret#123'' session_world
     = (network_failure,
        session_world\<lparr>requests := [login_request offline_platform ''alice'' ''Secret#123'']\<rparr>) \<and>
   server rejecting_platform (requests session_world)
     (login_request rejecting_platform ''alice'' ''Secret#123'') = Response unauthorized \<and>
   \<not> ok unauthorized \<and>
   login rejecting_platform ''alice'' ''Secret#123'' session_world
     = (JObj [(''success'', JBool False), (''message'', JStr ''Token has expired'')],
        session_world\<lparr>requests := [login_request rejecting_platform ''alice'' ''Secret#123'']\<rparr>)"
proof -
  let ?E = "demo_platform 0 unlimited refresh_granted"
  have total: "\<forall>v. \<exists>s. to_string ?E v = Some s"
    using demo_to_string_total by blast
  have user: "user_of demo_login_body = Some demo_user"
    by (simp add: user_of_def demo_login_body_def demo_user_def)
  have srv: "server ?E (requests empty_world) (login_request ?E ''alice'' ''Secret#123'')
     = Response \<lparr>status = 200, body = Some demo_login_body\<rparr>"
    by (simp add: demo_simps demo_server_def login_request_def)
  have quota: "\<forall>st k v. quota_ok ?E st k v"
    by (simp add: demo_simps unlimited_def)
  note granted = login_outcomes [of ?E "''alice''" "''Secret#123''" empty_world
      "fst (login ?E ''alice'' ''Secret#123'' empty_world)"
      "snd (login ?E ''alice'' ''Secret#123'' empty_world)", simplified]
  from granted srv user quota
  have ok_result: "fst (login ?E ''alice'' ''Secret#123'' empty_world)
     = JObj [(''success'', JBool True), (''user'', demo_user)]"
    and ok_store: "store (snd (login ?E ''alice'' ''Secret#123'' empty_world)) = session_store"
    by (simp_all add: ok_def demo_login_body_def token1_def demo_simps demo_stringify_def
                      session_store_def empty_world_def user_of_def demo_user_def)
  note offline = login_outcomes [of offline_platform "''alice''" "''Secret#123''" session_world
      "fst (login offline_platform ''alice'' ''Secret#123'' session_world)"
      "snd (login offline_platform ''alice'' ''Secret#123'' session_world)", simplified]
  have off: "login offline_platform ''alice'' ''Secret#123'' session_world
     = (network_failure,
        session_world\<lparr>requests := [login_request offline_platform ''alice'' ''Secret#123'']\<rparr>)"
    using offline
    by (simp add: login_unfold offline_platform_def session_world_def)
  note rejecting = login_outcomes [of rejecting_platform "''alice''" "''Secret#123''" session_world
      "fst (login rejecting_platform ''alice'' ''Secret#123'' session_world)"
      "snd (login rejecting_platform ''alice'' ''Secret#123'' session_world)", simplified]
  have rej: "login rejecting_platform ''alice'' ''Secret#123'' session_world
     = (JObj [(''success'', JBool False), (''message'', JStr ''Token has expired'')],
        session_world\<lparr>requests := [login_request rejecting_platform ''alice'' ''Secret#123'']\<rparr>)"
    using rejecting
    by (simp add: login_unfold rejecting_platform_def session_world_def unauthorized_def ok_def
                  server_failure_def)
  have "\<not> ok unauthorized" by (simp add: ok_def unauthorized_def)
  moreover have "ok \<lparr>status = 200, body = Some demo_login_body\<rparr>" by (simp add: ok_def)
  moreover have "server offline_platform (requests session_world)
     (login_request offline_platform ''alice'' ''Secret#123'') = NetworkError"
    by (simp add: offline_platform_def)
  moreover have "server rejecting_platform (requests session_world)
     (login_request rejecting_platform ''alice'' ''Secret#123'') = Response unauthorized"
    by (simp add: rejecting_platform_def)
  ultimately show ?thesis
    using srv quota total user ok_result ok_store off rej by blast
qed

section \<open>The store over sequences of operations\<close>

text \<open>
  Claim C9 says that no reachable store has an access token without a cached user. After a
  login, a validity check made once the token has expired starts a refresh without awaiting
  it; the user logs out, which clears the store; then the refresh settles and its
  continuation writes the new access token into the cleared store. The store now holds an
  access token and no user.
\<close>

theorem reachable_token_without_user_counterexample:
  "has_key (store (run [Login (demo_platform 0 unlimited refresh_granted) ''alice'' ''Secret#123'',
                        Check (demo_platform 5000 unlimited refresh_granted),
                        Logout (demo_platform 5000 unlimited refresh_granted),
                        Settle (demo_platform 5000 unlimited refresh_granted) 0] empty_world))
     ''access_token'' \<and>
   \<not> has_key (store (run [Login (demo_platform 0 unlimited refresh_granted) ''alice'' ''Secret#123'',
                        Check (demo_platform 5000 unlimited refresh_granted),
                        Logout (demo_platform 5000 unlimited refresh_granted),
                        Settle (demo_platform 5000 unlimited refresh_granted) 0] empty_world))
     ''user''"
proof -
  let ?login_env = "demo_platform 0 unlimited refresh_granted"
  let ?later = "demo_platform 5000 unlimited refresh_granted"
  let ?w1 = "session_world\<lparr>requests := [login_request ?login_env ''alice'' ''Secret#123'']\<rparr>"
  have s1: "exec (Login ?login_env ''alice'' ''Secret#123'') empty_world = ?w1"
    by (simp add: login_unfold login_store_def login_request_def setItem_def ok_def user_of_def
                  API_BASE_URL_def demo_simps demo_server_def unlimited_def demo_stringify_def
                  demo_login_body_def demo_user_def empty_world_def session_world_def
                  session_store_def token1_def)
  let ?w2 = "?w1\<lparr>requests := requests ?w1 @ [refresh_request ''r1''],
                   pending := [RefreshCont refresh_granted]\<rparr>"
  have s2: "exec (Check ?later) ?w1 = ?w2"
    by (simp add: isAuthenticated_def expiry_time_def payload_exp_def payload_segment_def
                  refreshAccessToken_unawaited_def exp1_json_def exp2_json_def
                  code_defs demo_defs)
  have s3: "store (exec (Logout ?later) ?w2) = Map.empty"
    "pending (exec (Logout ?later) ?w2) = [RefreshCont refresh_granted]"
    by (simp_all add: logout_def code_defs demo_defs fun_eq_iff)
  have s4: "store (exec (Settle ?later 0) (exec (Logout ?later) ?w2)) = [''access_token'' \<mapsto> token2]"
    using s3 by (simp add: refresh_continue_def setItem_def ok_def refresh_granted_def
                           demo_simps unlimited_def)
  have "run [Login ?login_env ''alice'' ''Secret#123'', Check ?later, Logout ?later, Settle ?later 0] empty_world
          = exec (Settle ?later 0) (exec (Logout ?later) ?w2)"
    by (simp add: run_def s1 s2 del: exec.simps)
  with s4 show ?thesis by (simp add: has_key_def del: exec.simps)
qed

text \<open>
  When every operation runs to its end, background work included, before the next one
  starts, and no write is refused, the store is at rest after each operation.
\<close>

lemma settled_requests [simp]: "settled (w\<lparr>requests := rs\<rparr>) = settled w"
  by (simp add: settled_def)

lemma settled_logout_finish: "pending w = [] \<Longrightarrow> settled (logout_finish w)"
  by (simp add: settled_def all_or_none_def has_key_def logout_finish_store logout_finish_rest)

lemma quiesce_logout_unawaited:
  assumes "pending w = []"
  shows "settled (quiesce env (logout_unawaited env' w))"
proof (cases "present (getAccessToken w)")
  case True
  let ?x = "logout_unawaited env' w"
  have p: "pending ?x = LogoutCont # []"
    using True assms by (simp add: logout_unawaited_cases)
  have "quiesce env ?x = quiesce env (run_task env LogoutCont (?x\<lparr>pending := []\<rparr>))"
    by (rule quiesce_cons [OF p])
  also have "\<dots> = logout_finish (?x\<lparr>pending := []\<rparr>)"
    by (simp add: quiesce_nil logout_finish_rest)
  finally show ?thesis by (simp add: settled_logout_finish)
next
  case False
  then show ?thesis
    using assms by (simp add: logout_unawaited_cases quiesce_nil logout_finish_rest
                              settled_logout_finish)
qed

lemma settled_new_access_token:
  assumes "settled w" and "present (getRefreshToken w)"
  shows "settled (w\<lparr>store := (store w)(''access_token'' \<mapsto> s)\<rparr>)"
proof -
  from assms(2) have "has_key (store w) ''refresh_token''"
    by (cases "store w ''refresh_token''") (simp_all add: getRefreshToken_def has_key_def)
  with assms(1) show ?thesis
    by (auto simp: settled_def all_or_none_def has_key_def split: option.splits)
qed

lemma quiesce_refresh_continue:
  assumes "settled w" and "present (getRefreshToken w)"
  shows "settled (quiesce env (snd (refresh_continue env' r w)))"
proof -
  from refresh_continue_cases [of env' r w]
  consider s where "refresh_continue env' r w = (True, w\<lparr>store := (store w)(''access_token'' \<mapsto> s)\<rparr>)"
    | "refresh_continue env' r w = (False, logout_unawaited env' w)"
    by blast
  then show ?thesis
  proof cases
    case 1
    have "settled (w\<lparr>store := (store w)(''access_token'' \<mapsto> s)\<rparr>)"
      by (rule settled_new_access_token [OF assms])
    moreover from assms(1) have "pending (w\<lparr>store := (store w)(''access_token'' \<mapsto> s)\<rparr>) = []"
      by (simp add: settled_def)
    ultimately show ?thesis by (simp add: 1 quiesce_nil)
  next
    case 2
    from assms(1) have "pending w = []" by (simp add: settled_def)
    then show ?thesis by (simp add: 2 quiesce_logout_unawaited)
  qed
qed

lemma exec_atomic_Logout: "settled w \<Longrightarrow> settled (exec_atomic (Logout env) w)"
  by (cases "getAccessToken w")
     (simp_all add: exec_atomic_def logout_def fetch_def settled_def quiesce_nil
                    logout_finish_rest all_or_none_def has_key_def logout_finish_store)

lemma exec_atomic_Settle: "settled w \<Longrightarrow> exec_atomic (Settle env i) w = w"
  by (simp add: exec_atomic_def settled_def quiesce_nil)

lemma exec_atomic_Refresh:
  assumes "settled w"
  shows "settled (exec_atomic (Refresh env) w)"
proof (cases "present (getRefreshToken w)")
  case False
  with assms show ?thesis
    by (simp add: exec_atomic_def refreshAccessToken_absent quiesce_nil settled_def)
next
  case True
  then obtain t where t: "getRefreshToken w = Some t" "t \<noteq> []"
    by (cases "getRefreshToken w") auto
  let ?w1 = "w\<lparr>requests := requests w @ [refresh_request t]\<rparr>"
  have "refreshAccessToken env w =
          refresh_continue env (server env (requests w) (refresh_request t)) ?w1"
    using t by (simp add: refreshAccessToken_def fetch_def)
  moreover have "settled ?w1" "present (getRefreshToken ?w1)"
    using assms True by (simp_all add: getRefreshToken_def)
  ultimately show ?thesis
    using quiesce_refresh_continue [of ?w1 env env] by (simp add: exec_atomic_def)
qed

lemma isAuthenticated_snd_cases:
  "snd (isAuthenticated env w) = w \<or>
   (present (getRefreshToken w) \<and>
    snd (isAuthenticated env w) = refreshAccessToken_unawaited env w) \<or>
   snd (isAuthenticated env w) = logout_unawaited env w"
proof (cases "getAccessToken w")
  case None
  then show ?thesis by (simp add: isAuthenticated_def)
next
  case (Some token)
  show ?thesis
  proof (cases "expiry_time env token")
    case None
    with Some show ?thesis by (simp add: isAuthenticated_def)
  next
    case (Some e)
    with \<open>getAccessToken w = Some token\<close> show ?thesis by (simp add: isAuthenticated_def)
  qed
qed

lemma exec_atomic_Check:
  assumes "settled w"
  shows "settled (exec_atomic (Check env) w)"
proof -
  from assms have p: "pending w = []" by (simp add: settled_def)
  from isAuthenticated_snd_cases [of env w]
  consider "snd (isAuthenticated env w) = w"
    | "present (getRefreshToken w)" "snd (isAuthenticated env w) = refreshAccessToken_unawaited env w"
    | "snd (isAuthenticated env w) = logout_unawaited env w"
    by blast
  then show ?thesis
  proof cases
    case 1
    with assms p show ?thesis by (simp add: exec_atomic_def quiesce_nil)
  next
    case 2
    then obtain t where t: "getRefreshToken w = Some t" "t \<noteq> []"
      by (cases "getRefreshToken w") auto
    let ?r = "server env (requests w) (refresh_request t)"
    let ?w1 = "w\<lparr>requests := requests w @ [refresh_request t]\<rparr>"
    let ?x = "refreshAccessToken_unawaited env w"
    have x: "?x = ?w1\<lparr>pending := pending w @ [RefreshCont ?r]\<rparr>"
      by (simp add: refreshAccessToken_unawaited_cases [OF t])
    have pend: "pending ?x = RefreshCont ?r # []"
      using p by (simp add: x)
    have "quiesce env ?x = quiesce env (run_task env (RefreshCont ?r) (?x\<lparr>pending := []\<rparr>))"
      by (rule quiesce_cons [OF pend])
    also have "?x\<lparr>pending := []\<rparr> = ?w1"
      using p by (simp add: x)
    finally have q: "quiesce env ?x = quiesce env (snd (refresh_continue env ?r ?w1))"
      by simp
    have "settled ?w1" "present (getRefreshToken ?w1)"
      using assms 2(1) by (simp_all add: getRefreshToken_def)
    then have "settled (quiesce env (snd (refresh_continue env ?r ?w1)))"
      by (rule quiesce_refresh_continue)
    then show ?thesis by (simp add: exec_atomic_def 2(2) q)
  next
    case 3
    with p show ?thesis by (simp add: exec_atomic_def quiesce_logout_unawaited)
  qed
qed

lemma login_store_settled:
  assumes quota: "\<forall>st k v. quota_ok env st k v"
    and total: "\<forall>v. \<exists>s. to_string env v = Some s"
    and w: "settled w"
  shows "settled (snd (login_store env data w))"
proof (cases "get_prop data ''access_token''")
  case None
  with w show ?thesis by (simp add: login_store_null)
next
  case (Some a)
  from get_prop_defined [OF Some] obtain rt where rt: "get_prop data ''refresh_token'' = Some rt"
    by blast
  from user_of_defined [OF Some] obtain user where user: "user_of data = Some user" by blast
  from total obtain a' r' where s: "to_string env a = Some a'" "to_string env rt = Some r'"
    by blast
  have "login_store env data w =
           (JObj [(''success'', JBool True), (''user'', user)],
            w\<lparr>store := (store w)(''access_token'' \<mapsto> a', ''refresh_token'' \<mapsto> r',
                                   ''user'' \<mapsto> JSON_stringify env user)\<rparr>)"
    using quota by (intro login_store_success [OF Some s(1) rt s(2) user]) simp_all
  with w show ?thesis by (simp add: settled_def all_or_none_def has_key_def)
qed

lemma exec_atomic_Login:
  assumes quota: "\<forall>st k v. quota_ok env st k v"
    and total: "\<forall>v. \<exists>s. to_string env v = Some s"
    and w: "settled w"
  shows "settled (exec_atomic (Login env u p) w)"
proof -
  let ?w1 = "w\<lparr>requests := requests w @ [login_request env u p]\<rparr>"
  have w1: "settled ?w1" using w by simp
  have "settled (snd (login env u p w))"
    using w1 login_store_settled [OF quota total w1]
    by (simp add: login_unfold split: fetch_result.splits option.splits)
  then show ?thesis by (simp add: exec_atomic_def quiesce_nil settled_def)
qed

lemma exec_atomic_settled:
  assumes "\<forall>st k v. quota_ok (op_env x) st k v"
    and "\<forall>v. \<exists>s. to_string (op_env x) v = Some s"
    and "settled w"
  shows "settled (exec_atomic x w)"
  using assms
  by (cases x)
     (simp_all add: exec_atomic_Login exec_atomic_Logout exec_atomic_Refresh exec_atomic_Check
                    exec_atomic_Settle del: exec.simps)

lemma run_atomic_settled:
  assumes "\<forall>x \<in> set ops. (\<forall>st k v. quota_ok (op_env x) st k v) \<and>
                           (\<forall>v. \<exists>s. to_string (op_env x) v = Some s)"
    and "settled w"
  shows "settled (run_atomic ops w)"
  using assms
proof (induction ops arbitrary: w)
  case Nil
  then show ?case by (simp add: run_atomic_def)
next
  case (Cons x ops)
  from Cons.prems have "settled (exec_atomic x w)"
    by (intro exec_atomic_settled) simp_all
  with Cons.IH [of "exec_atomic x w"] Cons.prems(1) show ?case
    by (simp add: run_atomic_def)
qed

text \<open>
  Claim C9, amended. In every store reached from the empty store by a sequence of logins,
  logouts, refreshes and validity checks, each run to its end together with the refresh or
  logout it starts in the background before the next operation begins, on platforms whose
  \<^verbatim>\<open>localStorage\<close> accepts every write and that convert every value to a string, the
  access token is present exactly when the cached user is, and so is the refresh token;
  nothing is left pending.
\<close>

theorem reachable_all_or_none:
  assumes "\<forall>x \<in> set ops. (\<forall>st k v. quota_ok (op_env x) st k v) \<and>
                           (\<forall>v. \<exists>s. to_string (op_env x) v = Some s)"
  shows "has_key (store (run_atomic ops empty_world)) ''access_token'' =
           has_key (store (run_atomic ops empty_world)) ''user'' \<and>
         has_key (store (run_atomic ops empty_world)) ''refresh_token'' =
           has_key (store (run_atomic ops empty_world)) ''user'' \<and>
         pending (run_atomic ops empty_world) = []"
proof -
  have "settled empty_world"
    by (simp add: settled_def all_or_none_def has_key_def empty_world_def)
  from run_atomic_settled [OF assms this] show ?thesis
    by (simp add: settled_def all_or_none_def)
qed

text \<open>
  A login, a validity check after expiry and a refresh that the server denies, on the
  concrete platform, whose store accepts every write.
\<close>

theorem reachable_all_or_none_witness:
  "(\<forall>st k v. quota_ok (demo_platform 0 unlimited refresh_granted) st k v) \<and>
   (\<forall>v. \<exists>s. to_string (demo_platform 0 unlimited refresh_granted) v = Some s) \<and>
   (\<forall>st k v. quota_ok (demo_platform 5000 unlimited refresh_granted) st k v) \<and>
   (\<forall>v. \<exists>s. to_string (demo_platform 5000 unlimited refresh_granted) v = Some s) \<and>
   (\<forall>st k v. quota_ok (demo_platform 5000 unlimited refresh_denied) st k v) \<and>
   (\<forall>v. \<exists>s. to_string (demo_platform 5000 unlimited refresh_denied) v = Some s) \<and>
   has_key (store (run_atomic
      [Login (demo_platform 0 unlimited refresh_granted) ''alice'' ''Secret#123'',
       Check (demo_platform 5000 unlimited refresh_granted),
       Refresh (demo_platform 5000 unlimited refresh_denied)] empty_world)) ''access_token'' =
   has_key (store (run_atomic
      [Login (demo_platform 0 unlimited refresh_granted) ''alice'' ''Secret#123'',
       Check (demo_platform 5000 unlimited refresh_granted),
       Refresh (demo_platform 5000 unlimited refresh_denied)] empty_world)) ''user'' \<and>
   has_key (store (run_atomic
      [Login (demo_platform 0 unlimited refresh_granted) ''alice'' ''Secret#123'',
       Check (demo_platform 5000 unlimited refresh_granted),
       Refresh (demo_platform 5000 unlimited refresh_denied)] empty_world)) ''refresh_token'' =
   has_key (store (run_atomic
      [Login (demo_platform 0 unlimited refresh_granted) ''alice'' ''Secret#123'',
       Check (demo_platform 5000 unlimited refresh_granted),
       Refresh (demo_platform 5000 unlimited refresh_denied)] empty_world)) ''user'' \<and>
   pending (run_atomic
      [Login (demo_platform 0 unlimited refresh_granted) ''alice'' ''Secret#123'',
       Check (demo_platform 5000 unlimited refresh_granted),
       Refresh (demo_platform 5000 unlimited refresh_denied)] empty_world) = []"
proof -
  have quota: "\<forall>st k v. quota_ok (demo_platform now unlimited ra) st k v" for now ra
    by (simp add: demo_simps unlimited_def)
  have total: "\<forall>v. \<exists>s. to_string (demo_platform now unlimited ra) v = Some s" for now ra
    using demo_to_string_total by blast
  have hyp: "\<forall>x \<in> set [Login (demo_platform 0 unlimited refresh_granted) ''alice'' ''Secret#123'',
                 Check (demo_platform 5000 unlimited refresh_granted),
                 Refresh (demo_platform 5000 unlimited refresh_denied)].
      (\<forall>st k v. quota_ok (op_env x) st k v) \<and>
      (\<forall>v. \<exists>s. to_string (op_env x) v = Some s)"
    by (auto simp: demo_simps unlimited_def demo_to_string_total)
  from reachable_all_or_none [OF hyp] quota total show ?thesis by blast
qed

section \<open>The role projector\<close>

lemma array_includes_iff:
  "array_includes xs v \<longleftrightarrow> (\<exists>r. v = JStr r \<and> r \<in> set xs)"
  by (cases v) simp_all

lemma project_roleAccess: "roleAccess (project role el) = roleAccess el"
  by (simp add: project_def)

lemma allowedRoles_project: "allowedRoles (project role el) = allowedRoles el"
  by (simp add: allowedRoles_def project_roleAccess)

lemma project_display:
  "display (project role el) =
     (if \<exists>r. role = JStr r \<and> r \<in> set (allowedRoles el) then [] else ''none'')"
  by (simp add: project_def array_includes_iff)

lemma get_prop_truthy: "truthy v \<Longrightarrow> \<exists>p. get_prop v k = Some p"
  by (cases v) (simp_all split: option.splits)

lemma set_user_name_gated: "set_user_name env user pg = Some pg1 \<Longrightarrow> gated pg1 = gated pg"
  by (auto simp: set_user_name_def split: option.splits)

lemma set_role_badge_gated: "set_role_badge env role pg = Some pg1 \<Longrightarrow> gated pg1 = gated pg"
  by (auto simp: set_role_badge_def split: option.splits)

lemma text_content_total:
  assumes "\<forall>v. \<exists>s. to_string env v = Some s"
  shows "\<exists>s. text_content env role = Some s"
proof -
  have "text_content env role = Some [] \<or> text_content env role = to_string env role"
    by (cases role) simp_all
  with assms show ?thesis by metis
qed

lemma set_user_name_total:
  assumes "truthy user" and "\<forall>v. \<exists>s. to_string env v = Some s"
  shows "\<exists>pg1. set_user_name env user pg = Some pg1"
proof -
  from get_prop_truthy [OF assms(1)] obtain f l where
    "get_prop user ''firstName'' = Some f" "get_prop user ''lastName'' = Some l" by metis
  moreover from assms(2) obtain a b where "to_string env f = Some a" "to_string env l = Some b"
    by metis
  ultimately show ?thesis by (simp add: set_user_name_def split: option.splits)
qed

lemma set_role_badge_total:
  assumes "\<forall>v. \<exists>s. to_string env v = Some s"
  shows "\<exists>pg1. set_role_badge env role pg = Some pg1"
  using text_content_total [OF assms, of role]
  by (auto simp: set_role_badge_def split: option.splits)

lemma updateUserUI_done:
  assumes "getUser env w = Some user" and "truthy user" and "fst (updateUserUI env w pg)"
  shows "\<exists>role. get_prop user ''role'' = Some role \<and>
           gated (snd (updateUserUI env w pg)) = map (project role) (gated pg)"
  using assms
  by (auto simp: updateUserUI_def set_user_name_gated set_role_badge_gated
           split: option.splits)

lemma updateUserUI_threw:
  assumes "\<not> fst (updateUserUI env w pg)"
  shows "gated (snd (updateUserUI env w pg)) = gated pg"
  using assms
  by (auto simp: updateUserUI_def set_user_name_gated split: option.splits if_splits)

lemma updateUserUI_completes:
  assumes "getUser env w = Some user" and "truthy user"
    and "\<forall>v. \<exists>s. to_string env v = Some s"
  shows "fst (updateUserUI env w pg)"
proof -
  from set_user_name_total [OF assms(2,3)] obtain pg1 where
    n: "set_user_name env user pg = Some pg1" by blast
  from get_prop_truthy [OF assms(2)] obtain role where r: "get_prop user ''role'' = Some role"
    by blast
  from set_role_badge_total [OF assms(3)] obtain pg2 where
    b: "set_role_badge env role pg1 = Some pg2" by blast
  from assms(1,2) n r b show ?thesis by (simp add: updateUserUI_def)
qed

text \<open>
  Claim C3 says that with no cached user every gated element ends up hidden. With an empty
  store \<^verbatim>\<open>getUser\<close> returns \<^verbatim>\<open>null\<close>, \<^verbatim>\<open>updateUserUI\<close> returns at
  \<^verbatim>\<open>if (!user) return\<close>, and the page is as before: its first gated element, which
  was shown, is still shown.
\<close>

theorem updateUserUI_no_user_counterexample:
  "getUser (demo_platform 5000 unlimited refresh_granted) empty_world = Some JNull \<and>
   updateUserUI (demo_platform 5000 unlimited refresh_granted) empty_world demo_page
     = (True, demo_page) \<and>
   map display (gated demo_page) = [[], ''none'']"
  by (simp add: updateUserUI_def getUser_def empty_world_def demo_page_def)

text \<open>
  Claim C3, amended. When the cached user is there (\<^verbatim>\<open>getUser\<close> returns a truthy
  value) and \<^verbatim>\<open>updateUserUI\<close> runs to its end, it shows a gated element if and only if
  the user's role is a string that is one of the trimmed entries of the element's
  comma-separated allow-list, and hides it otherwise; so a role that is missing, is not a
  string, or is on no element's allow-list hides every gated element. It runs to its end
  whenever the name and the role convert to strings. When it stops early, or when no user
  is cached, every gated element is left as it was.
\<close>

theorem updateUserUI_projects_role:
  assumes user: "getUser env w = Some user"
  shows
    "(truthy user \<and> fst (updateUserUI env w pg) \<longrightarrow>
        (\<exists>role.
           get_prop user ''role'' = Some role \<and>
           map roleAccess (gated (snd (updateUserUI env w pg))) = map roleAccess (gated pg) \<and>
           (\<forall>el \<in> set (gated (snd (updateUserUI env w pg))).
              (display el = [] \<longleftrightarrow> (\<exists>r. role = JStr r \<and> r \<in> set (allowedRoles el))) \<and>
              (display el = ''none'' \<longleftrightarrow> \<not> (\<exists>r. role = JStr r \<and> r \<in> set (allowedRoles el)))) \<and>
           ((\<forall>r. role = JStr r \<longrightarrow> (\<forall>el \<in> set (gated pg). r \<notin> set (allowedRoles el))) \<longrightarrow>
              (\<forall>el \<in> set (gated (snd (updateUserUI env w pg))). display el = ''none'')))) \<and>
     (truthy user \<and> (\<forall>v. \<exists>s. to_string env v = Some s) \<longrightarrow> fst (updateUserUI env w pg)) \<and>
     (\<not> fst (updateUserUI env w pg) \<longrightarrow> gated (snd (updateUserUI env w pg)) = gated pg) \<and>
     (\<not> truthy user \<longrightarrow> updateUserUI env w pg = (True, pg))"
proof (intro conjI impI)
  assume "truthy user \<and> fst (updateUserUI env w pg)"
  then have t: "truthy user" and d: "fst (updateUserUI env w pg)" by simp_all
  from updateUserUI_done [OF user t d] obtain role where
    role: "get_prop user ''role'' = Some role" and
    g: "gated (snd (updateUserUI env w pg)) = map (project role) (gated pg)"
    by blast
  let ?els' = "map (project role) (gated pg)"
  have ra: "map roleAccess ?els' = map roleAccess (gated pg)"
    by (simp add: project_roleAccess)
  have disp: "\<forall>el \<in> set ?els'.
              (display el = [] \<longleftrightarrow> (\<exists>r. role = JStr r \<and> r \<in> set (allowedRoles el))) \<and>
              (display el = ''none'' \<longleftrightarrow> \<not> (\<exists>r. role = JStr r \<and> r \<in> set (allowedRoles el)))"
  proof
    fix el assume "el \<in> set ?els'"
    then obtain el0 where el: "el = project role el0" by auto
    show "(display el = [] \<longleftrightarrow> (\<exists>r. role = JStr r \<and> r \<in> set (allowedRoles el))) \<and>
          (display el = ''none'' \<longleftrightarrow> \<not> (\<exists>r. role = JStr r \<and> r \<in> set (allowedRoles el)))"
      unfolding el allowedRoles_project project_display by simp
  qed
  have closed: "(\<forall>r. role = JStr r \<longrightarrow> (\<forall>el \<in> set (gated pg). r \<notin> set (allowedRoles el))) \<longrightarrow>
              (\<forall>el \<in> set ?els'. display el = ''none'')"
  proof (intro impI ballI)
    fix el
    assume no: "\<forall>r. role = JStr r \<longrightarrow> (\<forall>el \<in> set (gated pg). r \<notin> set (allowedRoles el))"
      and "el \<in> set ?els'"
    then obtain el0 where el: "el = project role el0" "el0 \<in> set (gated pg)" by auto
    with no have "\<not> (\<exists>r. role = JStr r \<and> r \<in> set (allowedRoles el0))" by blast
    then show "display el = ''none''" unfolding el project_display by simp
  qed
  show "\<exists>role.
           get_prop user ''role'' = Some role \<and>
           map roleAccess (gated (snd (updateUserUI env w pg))) = map roleAccess (gated pg) \<and>
           (\<forall>el \<in> set (gated (snd (updateUserUI env w pg))).
              (display el = [] \<longleftrightarrow> (\<exists>r. role = JStr r \<and> r \<in> set (allowedRoles el))) \<and>
              (display el = ''none'' \<longleftrightarrow> \<not> (\<exists>r. role = JStr r \<and> r \<in> set (allowedRoles el)))) \<and>
           ((\<forall>r. role = JStr r \<longrightarrow> (\<forall>el \<in> set (gated pg). r \<notin> set (allowedRoles el))) \<longrightarrow>
              (\<forall>el \<in> set (gated (snd (updateUserUI env w pg))). display el = ''none''))"
    unfolding g by (rule exI [of _ role]) (intro conjI role ra disp closed)
next
  assume "truthy user \<and> (\<forall>v. \<exists>s. to_string env v = Some s)"
  then show "fst (updateUserUI env w pg)"
    using updateUserUI_completes [OF user] by blast
next
  assume "\<not> fst (updateUserUI env w pg)"
  then show "gated (snd (updateUserUI env w pg)) = gated pg"
    by (rule updateUserUI_threw)
next
  assume "\<not> truthy user"
  with user show "updateUserUI env w pg = (True, pg)"
    by (simp add: updateUserUI_def)
qed

lemma allowedRoles_examples:
  "allowedRoles \<lparr>roleAccess = ''doctor,admin'', display = d\<rparr> = [''doctor'', ''admin'']"
  "allowedRoles \<lparr>roleAccess = ''nurse, admin'', display = d\<rparr> = [''nurse'', ''admin'']"
  by (simp_all add: allowedRoles_def js_trim_def is_whitespace_def)

text \<open>
  The cached role \<^verbatim>\<open>nurse\<close>: the element allow-listing \<^verbatim>\<open>doctor,admin\<close> is hidden,
  the one allow-listing \<^verbatim>\<open>nurse, admin\<close> is shown, and the navbar shows the name and
  the badge. No cached user: the page stays as it is.
\<close>

theorem updateUserUI_projects_role_witness:
  "getUser (demo_platform 5000 unlimited refresh_granted) session_world = Some demo_user \<and>
   truthy demo_user \<and>
   (\<forall>v. \<exists>s. to_string (demo_platform 5000 unlimited refresh_granted) v = Some s) \<and>
   get_prop demo_user ''role'' = Some (JStr ''nurse'') \<and>
   updateUserUI (demo_platform 5000 unlimited refresh_granted) session_world demo_page
     = (True, nurse_page) \<and>
   getUser (demo_platform 5000 unlimited refresh_granted) refresh_only_world = Some JNull \<and>
   \<not> truthy JNull \<and>
   updateUserUI (demo_platform 5000 unlimited refresh_granted) refresh_only_world nurse_page
     = (True, nurse_page)"
proof -
  let ?env = "demo_platform 5000 unlimited refresh_granted"
  have u: "getUser ?env session_world = Some demo_user"
    by (simp add: getUser_def demo_defs demo_user_json_def exp1_json_def exp2_json_def)
  have n: "getUser ?env refresh_only_world = Some JNull"
    by (simp add: getUser_def demo_defs)
  have total: "\<forall>v. \<exists>s. to_string ?env v = Some s"
    using demo_to_string_total by blast
  have run: "updateUserUI ?env session_world demo_page = (True, nurse_page)"
    using updateUserUI_projects_role [OF u, of demo_page] u total
    by (simp add: updateUserUI_def set_user_name_def set_role_badge_def project_def
                  allowedRoles_examples demo_user_def demo_page_def nurse_page_def)
  from updateUserUI_projects_role [OF n, of nurse_page] have
    "updateUserUI ?env refresh_only_world nurse_page = (True, nurse_page)"
    by simp
  with u n total run show ?thesis by (simp add: demo_user_def)
qed

end
